theory Spec2Isabelle
  imports Main
begin

section \<open>JavaScript values, strings and objects\<close>

text \<open>
  Strings are lists of 8-bit characters, read as UTF-8 text. A JSON value that a server
  handler returns is a \<open>jsval\<close>; numbers are the integer-valued ones (a fractional
  number has no representation here). Objects are association lists in insertion order.
\<close>

datatype jsval = JUndefined | JNull | JBool bool | JNum int | JStr string

definition digit_char :: "nat \<Rightarrow> char" where
  "digit_char d = ''0123456789'' ! d"

function show_nat :: "nat \<Rightarrow> string" where
  "show_nat n = (if n < 10 then [digit_char n] else show_nat (n div 10) @ [digit_char (n mod 10)])"
  by pat_completeness auto
termination
  by (relation "measure id") auto

declare show_nat.simps [simp del]

definition show_int :: "int \<Rightarrow> string" where
  "show_int i = (if i < 0 then CHR ''-'' # show_nat (nat (- i)) else show_nat (nat i))"

text \<open>Truthiness, \<open>a || b\<close>, and the string a template literal makes of a value.\<close>

fun truthy :: "jsval \<Rightarrow> bool" where
  "truthy JUndefined = False"
| "truthy JNull = False"
| "truthy (JBool b) = b"
| "truthy (JNum n) = (n \<noteq> 0)"
| "truthy (JStr s) = (s \<noteq> [])"

definition js_or :: "jsval \<Rightarrow> jsval \<Rightarrow> jsval" where
  "js_or a b = (if truthy a then a else b)"

fun toString :: "jsval \<Rightarrow> string" where
  "toString JUndefined = ''undefined''"
| "toString JNull = ''null''"
| "toString (JBool b) = (if b then ''true'' else ''false'')"
| "toString (JNum n) = show_int n"
| "toString (JStr s) = s"

text \<open>\<open>n.toFixed(1)\<close>: only a number has the method; on anything else the call throws.\<close>

fun toFixed1 :: "jsval \<Rightarrow> string option" where
  "toFixed1 (JNum n) = Some (show_int n @ ''.0'')"
| "toFixed1 _ = None"

text \<open>
  Assigning \<open>textContent\<close>: \<open>null\<close> and \<open>undefined\<close> give the empty text, any other
  value its string.
\<close>

fun textContent :: "jsval \<Rightarrow> string" where
  "textContent JUndefined = []"
| "textContent JNull = []"
| "textContent v = toString v"

text \<open>
  \<open>escapeHtml\<close> puts the text into a fresh element and reads \<open>innerHTML\<close> back: the
  serialisation of a text node replaces \<open>&\<close>, \<open><\<close>, \<open>>\<close> and the no-break space
  (bytes C2 A0).
\<close>

fun serialize_text :: "string \<Rightarrow> string" where
  "serialize_text [] = []"
| "serialize_text (c # cs) =
     (if c = CHR ''&'' then ''&amp;'' @ serialize_text cs
      else if c = CHR ''<'' then ''&lt;'' @ serialize_text cs
      else if c = CHR ''>'' then ''&gt;'' @ serialize_text cs
      else if c = CHR 0xC2 \<and> cs \<noteq> [] \<and> hd cs = CHR 0xA0 then ''&nbsp;'' @ serialize_text (tl cs)
      else c # serialize_text cs)"

definition escapeHtml :: "jsval \<Rightarrow> string" where
  "escapeHtml v = serialize_text (textContent v)"

subsection \<open>Objects with string keys\<close>

text \<open>
  \<open>Object.keys\<close> lists the keys that are array indices (canonical decimal numerals below
  \<open>2^32 - 1\<close>) first, in ascending order, then all other keys in insertion order.
\<close>

type_synonym 'v js_object = "(string \<times> 'v) list"

definition obj_get :: "'v js_object \<Rightarrow> string \<Rightarrow> 'v option" where
  "obj_get ps k = map_of ps k"

fun obj_set :: "string \<Rightarrow> 'v \<Rightarrow> 'v js_object \<Rightarrow> 'v js_object" where
  "obj_set k v [] = [(k, v)]"
| "obj_set k v (p # ps) = (if fst p = k then (k, v) # ps else p # obj_set k v ps)"

definition obj_delete :: "string \<Rightarrow> 'v js_object \<Rightarrow> 'v js_object" where
  "obj_delete k ps = filter (\<lambda>p. fst p \<noteq> k) ps"

definition is_digit :: "char \<Rightarrow> bool" where
  "is_digit c = (c \<in> set ''0123456789'')"

definition digit_val :: "char \<Rightarrow> int" where
  "digit_val c = of_char c - 48"

definition read_nat :: "string \<Rightarrow> int" where
  "read_nat s = foldl (\<lambda>a c. 10 * a + digit_val c) 0 s"

definition is_array_index :: "string \<Rightarrow> bool" where
  "is_array_index s =
     (s \<noteq> [] \<and> list_all is_digit s \<and> (s = ''0'' \<or> hd s \<noteq> CHR ''0'') \<and> read_nat s < 4294967295)"

definition obj_keys :: "'v js_object \<Rightarrow> string list" where
  "obj_keys ps =
     (let ks = map fst ps
      in sort_key read_nat (filter is_array_index ks) @ filter (\<lambda>k. \<not> is_array_index k) ks)"

text \<open>The key a possibly undefined value makes when it is used as a property name.\<close>

definition key_of :: "string option \<Rightarrow> string" where
  "key_of l = (case l of None \<Rightarrow> ''undefined'' | Some s \<Rightarrow> s)"

subsection \<open>\<open>String.prototype.trim\<close>\<close>

text \<open>The white space and line terminator code points, as UTF-8 byte sequences.\<close>

definition ws_tokens :: "string list" where
  "ws_tokens =
     [[CHR 0x09], [CHR 0x0A], [CHR 0x0B], [CHR 0x0C], [CHR 0x0D], [CHR 0x20],
      [CHR 0xC2, CHR 0xA0], [CHR 0xE1, CHR 0x9A, CHR 0x80],
      [CHR 0xE2, CHR 0x80, CHR 0x80], [CHR 0xE2, CHR 0x80, CHR 0x81],
      [CHR 0xE2, CHR 0x80, CHR 0x82], [CHR 0xE2, CHR 0x80, CHR 0x83],
      [CHR 0xE2, CHR 0x80, CHR 0x84], [CHR 0xE2, CHR 0x80, CHR 0x85],
      [CHR 0xE2, CHR 0x80, CHR 0x86], [CHR 0xE2, CHR 0x80, CHR 0x87],
      [CHR 0xE2, CHR 0x80, CHR 0x88], [CHR 0xE2, CHR 0x80, CHR 0x89],
      [CHR 0xE2, CHR 0x80, CHR 0x8A], [CHR 0xE2, CHR 0x80, CHR 0xA8],
      [CHR 0xE2, CHR 0x80, CHR 0xA9], [CHR 0xE2, CHR 0x80, CHR 0xAF],
      [CHR 0xE2, CHR 0x81, CHR 0x9F], [CHR 0xE3, CHR 0x80, CHR 0x80],
      [CHR 0xEF, CHR 0xBB, CHR 0xBF]]"

function strip_tokens :: "string list \<Rightarrow> string \<Rightarrow> string" where
  "strip_tokens toks s =
     (case find (\<lambda>t. t \<noteq> [] \<and> take (length t) s = t) toks of
        None \<Rightarrow> s
      | Some t \<Rightarrow> strip_tokens toks (drop (length t) s))"
  by pat_completeness auto
termination
proof (relation "measure (\<lambda>(toks, s). length s)")
  show "wf (measure (\<lambda>(toks, s). length s))"
    by simp
next
  fix toks :: "string list" and s t :: string
  assume "find (\<lambda>t. t \<noteq> [] \<and> take (length t) s = t) toks = Some t"
  then have t: "t \<noteq> []" "take (length t) s = t"
    by (auto simp: find_Some_iff)
  then have "s \<noteq> []"
    by auto
  with t show "((toks, drop (length t) s), (toks, s)) \<in> measure (\<lambda>(toks, s). length s)"
    by (cases t) auto
qed

declare strip_tokens.simps [simp del]

definition js_trim :: "string \<Rightarrow> string" where
  "js_trim s = rev (strip_tokens (map rev ws_tokens) (rev (strip_tokens ws_tokens s)))"

section \<open>The student workspace (AdvancedCodingXBlock)\<close>

text \<open>
  The instance fields and the part of the page the methods read and write. File names
  are the ones the server handlers accept: free of quotes and backslashes (so that the
  selector \<open>[data-filename="..."]\<close> is the test for that name, and a tab's close button,
  which carries the same name, never precedes its tab) and different from the members of
  \<open>Object.prototype\<close>. Timers and the console log are not part of the state.
\<close>

record file_data =
  content :: "string option"
  language :: "string option"
  created_at :: "string option"
  modified_at :: "string option"

record lang_config =
  template :: string

datatype editor_widget = Monaco string string | Fallback string | NoEditor

record file_tab =
  data_filename :: string
  data_language :: string
  tab_name :: string
  modified :: bool
  active :: bool
  tab_close :: bool

text \<open>
  A handler call that was issued, with what its continuation captured. \<open>SaveCall\<close> is the
  call of \<open>saveCurrentFile\<close>, \<open>CreateCall\<close> the \<open>save_file\<close> call of \<open>createNewFile\<close>.
\<close>

datatype handler_call =
    SaveCall string string "string option"
  | CreateCall string string string
  | DeleteCall string
  | RunCall string string
  | SubmitCall string

fun handlerName :: "handler_call \<Rightarrow> string" where
  "handlerName (SaveCall f c l) = ''save_file''"
| "handlerName (CreateCall f c l) = ''save_file''"
| "handlerName (DeleteCall f) = ''delete_file''"
| "handlerName (RunCall f i) = ''run_code''"
| "handlerName (SubmitCall f) = ''submit_solution''"

record workspace =
  studentFiles :: "file_data js_object"
  supportedLanguages :: "lang_config js_object"
  currentLanguage :: "string option"
  activeFile :: string
  editor :: editor_widget
  autoSaveTimeout :: bool
  isExecuting :: bool
  currentModal :: "string option"
  modal_shown :: bool
  modal_language_disabled :: bool
  file_tabs :: "file_tab list"
  language_select :: "string option"
  loading_shown :: bool
  run_code_btn_disabled :: bool
  run_with_input_btn_disabled :: bool
  submit_solution_btn_disabled :: bool
  output_tab :: string
  console_output :: string
  test_summary :: string
  test_results_list :: string
  current_score :: string
  notifications :: "(string \<times> string) list"
  confirms :: "string list"
  calls :: "handler_call list"

definition LANGUAGE_MAPPINGS :: "string js_object" where
  "LANGUAGE_MAPPINGS =
     [(''python'', ''python''), (''java'', ''java''), (''cpp'', ''cpp''), (''c'', ''c''),
      (''javascript'', ''javascript''), (''typescript'', ''typescript''), (''html'', ''html''),
      (''css'', ''css''), (''json'', ''json''), (''xml'', ''xml''), (''markdown'', ''markdown'')]"

definition getMonacoLanguage :: "string option \<Rightarrow> string" where
  "getMonacoLanguage l =
     (case obj_get LANGUAGE_MAPPINGS (key_of l) of Some m \<Rightarrow> m | None \<Rightarrow> ''plaintext'')"

definition getTemplateForLanguage :: "string option \<Rightarrow> workspace \<Rightarrow> string" where
  "getTemplateForLanguage l st =
     (case obj_get (supportedLanguages st) (key_of l) of
        Some langConfig \<Rightarrow> template langConfig
      | None \<Rightarrow> ''// Write your code here'')"

definition showNotification :: "string \<Rightarrow> string \<Rightarrow> workspace \<Rightarrow> workspace" where
  "showNotification type message st = st\<lparr>notifications := notifications st @ [(type, message)]\<rparr>"

text \<open>\<open>querySelector('[data-filename="..."]')\<close>: the first tab of that name.\<close>

fun update_tab :: "string \<Rightarrow> (file_tab \<Rightarrow> file_tab) \<Rightarrow> file_tab list \<Rightarrow> file_tab list" where
  "update_tab filename f [] = []"
| "update_tab filename f (t # ts) =
     (if data_filename t = filename then f t # ts else t # update_tab filename f ts)"

fun remove_first :: "char \<Rightarrow> string \<Rightarrow> string" where
  "remove_first c [] = []"
| "remove_first c (x # xs) = (if x = c then xs else x # remove_first c xs)"

definition markFileAsModified :: "string \<Rightarrow> workspace \<Rightarrow> workspace" where
  "markFileAsModified filename st =
     st\<lparr>file_tabs := update_tab filename
          (\<lambda>t. if modified t then t
                else t\<lparr>modified := True,
                       tab_name := (if CHR ''*'' \<in> set (tab_name t) then tab_name t
                                    else tab_name t @ ''*'')\<rparr>)
          (file_tabs st)\<rparr>"

definition removeModifiedMark :: "string \<Rightarrow> workspace \<Rightarrow> workspace" where
  "removeModifiedMark filename st =
     st\<lparr>file_tabs := update_tab filename
          (\<lambda>t. if modified t
                then t\<lparr>modified := False, tab_name := remove_first CHR ''*'' (tab_name t)\<rparr>
                else t)
          (file_tabs st)\<rparr>"

definition onEditorContentChange :: "workspace \<Rightarrow> workspace" where
  "onEditorContentChange st = (markFileAsModified (activeFile st) st)\<lparr>autoSaveTimeout := True\<rparr>"

definition getCurrentEditorContent :: "workspace \<Rightarrow> string" where
  "getCurrentEditorContent st =
     (case editor st of Monaco v l \<Rightarrow> v | Fallback v \<Rightarrow> v | NoEditor \<Rightarrow> [])"

text \<open>
  \<open>loadActiveFile\<close>: setting the value of the Monaco model notifies the content-change
  listener registered by \<open>initializeMonacoEditor\<close>; the fallback text area does not.
\<close>

definition loadActiveFile :: "workspace \<Rightarrow> workspace" where
  "loadActiveFile st =
     (let fileContent = (case obj_get (studentFiles st) (activeFile st) of
                           Some fileData \<Rightarrow> content fileData | None \<Rightarrow> None);
          text = (case fileContent of
                    Some c \<Rightarrow> if c \<noteq> [] then c else getTemplateForLanguage (currentLanguage st) st
                  | None \<Rightarrow> getTemplateForLanguage (currentLanguage st) st)
      in case editor st of
           Monaco v l \<Rightarrow>
             onEditorContentChange (st\<lparr>editor := Monaco text (getMonacoLanguage (currentLanguage st))\<rparr>)
         | Fallback v \<Rightarrow> st\<lparr>editor := Fallback text\<rparr>
         | NoEditor \<Rightarrow> st)"

definition updateFileTabsUI :: "workspace \<Rightarrow> workspace" where
  "updateFileTabsUI st =
     st\<lparr>file_tabs := map (\<lambda>t. t\<lparr>active := (data_filename t = activeFile st)\<rparr>) (file_tabs st)\<rparr>"

definition updateLanguageSelector :: "workspace \<Rightarrow> workspace" where
  "updateLanguageSelector st = st\<lparr>language_select := currentLanguage st\<rparr>"

definition saveCurrentFile :: "workspace \<Rightarrow> workspace" where
  "saveCurrentFile st =
     st\<lparr>calls := calls st @ [SaveCall (activeFile st) (getCurrentEditorContent st) (currentLanguage st)]\<rparr>"

definition updateStudentFiles :: "string \<Rightarrow> string \<Rightarrow> string \<Rightarrow> workspace \<Rightarrow> workspace" where
  "updateStudentFiles filename text now st =
     (let old = (case obj_get (studentFiles st) filename of
                   Some fileData \<Rightarrow> fileData
                 | None \<Rightarrow> \<lparr>content = None, language = None, created_at = None, modified_at = None\<rparr>)
      in st\<lparr>studentFiles := obj_set filename
                (old\<lparr>content := Some text, language := currentLanguage st, modified_at := Some now\<rparr>)
                (studentFiles st)\<rparr>)"

definition switchToFile :: "string \<Rightarrow> string option \<Rightarrow> workspace \<Rightarrow> workspace" where
  "switchToFile filename lang st =
     (if activeFile st = filename then st
      else updateLanguageSelector (updateFileTabsUI (loadActiveFile
             ((saveCurrentFile st)\<lparr>activeFile := filename, currentLanguage := lang\<rparr>))))"

definition hideModal :: "workspace \<Rightarrow> workspace" where
  "hideModal st = st\<lparr>modal_shown := False, modal_language_disabled := False, currentModal := None\<rparr>"

definition addFileTab :: "string \<Rightarrow> string \<Rightarrow> workspace \<Rightarrow> workspace" where
  "addFileTab filename lang st =
     st\<lparr>file_tabs := file_tabs st @
        [\<lparr>data_filename = filename, data_language = lang,
          tab_name = filename, modified = False, active = False,
          tab_close = (length (obj_keys (studentFiles st)) > 0)\<rparr>]\<rparr>"

fun removeFirstTab :: "string \<Rightarrow> file_tab list \<Rightarrow> file_tab list" where
  "removeFirstTab filename [] = []"
| "removeFirstTab filename (t # ts) =
     (if data_filename t = filename then ts else t # removeFirstTab filename ts)"

definition removeFileTab :: "string \<Rightarrow> workspace \<Rightarrow> workspace" where
  "removeFileTab filename st = st\<lparr>file_tabs := removeFirstTab filename (file_tabs st)\<rparr>"

definition setExecutionState :: "bool \<Rightarrow> workspace \<Rightarrow> workspace" where
  "setExecutionState executing st =
     st\<lparr>isExecuting := executing, loading_shown := executing,
        run_code_btn_disabled := executing, run_with_input_btn_disabled := executing,
        submit_solution_btn_disabled := executing\<rparr>"

definition switchOutputTab :: "string \<Rightarrow> workspace \<Rightarrow> workspace" where
  "switchOutputTab tabName st = st\<lparr>output_tab := tabName\<rparr>"

subsection \<open>Responses of the handlers\<close>

text \<open>
  A response is a JSON object: a field that is absent reads as \<open>undefined\<close>. A response
  that is \<open>null\<close> makes the first read \<open>response.success\<close> throw into the \<open>catch\<close>
  handler of the call, as a transport error does: both are the outcome \<open>Rejected\<close>.
  The field \<open>output\<close> is written \<open>run_output\<close>.
  \<open>status\<close> is \<open>None\<close> when the field is falsy and \<open>Some d\<close> when it is truthy with
  \<open>description\<close> \<open>d\<close>; \<open>test_results\<close> is \<open>None\<close> when the field is not an array.
\<close>

record test_result =
  name :: jsval
  passed :: jsval
  points :: jsval
  earned_points :: jsval
  is_public :: jsval
  expected_output :: jsval
  actual_output :: jsval

record response =
  success :: jsval
  error :: jsval
  message :: jsval
  run_output :: jsval
  compile_output :: jsval
  status :: "jsval option"
  time :: jsval
  memory :: jsval
  score :: jsval
  max_score :: jsval
  passed_tests :: jsval
  total_tests :: jsval
  test_results :: "test_result list option"

datatype outcome = Resolved response | Rejected

subsection \<open>Rendering results\<close>

definition displayExecutionResult :: "response \<Rightarrow> workspace \<Rightarrow> workspace" where
  \<open>displayExecutionResult r st =
     (if truthy (success r) then
        st\<lparr>console_output :=
          (if truthy (compile_output r) then
             ''<div class="console-section">\<newline>                        <div class="console-label">Compilation:</div>\<newline>                        <div class="output-line">'' @
             escapeHtml (compile_output r) @
             ''</div>\<newline>                    </div>''
           else []) @
          (if truthy (run_output r) then
             ''<div class="console-section">\<newline>                        <div class="console-label">Output:</div>\<newline>                        <div class="success-line">'' @
             escapeHtml (run_output r) @
             ''</div>\<newline>                    </div>''
           else
             ''<div class="console-section">\<newline>                        <div class="console-message">No output produced</div>\<newline>                    </div>'') @
          (if truthy (error r) then
             ''<div class="console-section">\<newline>                        <div class="console-label">Errors:</div>\<newline>                        <div class="error-line">'' @
             escapeHtml (error r) @
             ''</div>\<newline>                    </div>''
           else []) @
          (case status r of
             Some description \<Rightarrow>
               ''<div class="console-section">\<newline>                        <div class="console-info">\<newline>                            Status: '' @
               toString (js_or description (JStr ''Completed'')) @
               '' | \<newline>                            Time: '' @
               toString (js_or (time r) (JNum 0)) @
               ''s | \<newline>                            Memory: '' @
               toString (js_or (memory r) (JNum 0)) @
               ''KB\<newline>                        </div>\<newline>                    </div>''
           | None \<Rightarrow> [])\<rparr>
      else
        st\<lparr>console_output :=
          ''<div class="error-line">'' @
          escapeHtml (js_or (error r) (JStr ''Execution failed'')) @
          ''</div>''\<rparr>)\<close>

definition displayExecutionError :: "string \<Rightarrow> workspace \<Rightarrow> workspace" where
  \<open>displayExecutionError err st =
     st\<lparr>console_output := ''<div class="error-line">'' @ escapeHtml (JStr err) @ ''</div>''\<rparr>\<close>

definition render_test :: "test_result \<Rightarrow> string" where
  \<open>render_test test =
     (let statusClass = (if truthy (passed test) then ''passed'' else ''failed'');
          statusIcon = (if truthy (passed test) then [CHR 0xE2, CHR 0x9C, CHR 0x93]
                        else [CHR 0xE2, CHR 0x9C, CHR 0x97])
      in ''\<newline>                    <div class="test-result-item '' @
         statusClass @
         ''">\<newline>                        <div class="test-result-header">\<newline>                            <div class="test-result-name">'' @
         escapeHtml (name test) @
         ''</div>\<newline>                            <div class="test-result-status '' @
         statusClass @
         ''">\<newline>                                '' @
         statusIcon @
         '' '' @
         (if truthy (passed test) then ''Passed'' else ''Failed'') @
         ''\<newline>                                <span class="test-result-points">'' @
         toString (earned_points test) @
         ''/'' @
         toString (points test) @
         '' pts</span>\<newline>                            </div>\<newline>                        </div>\<newline>                '' @
         (if truthy (is_public test) then
            ''\<newline>                        <div class="test-result-details">\<newline>                            <div class="test-result-output">\<newline>                                <label>Expected Output:</label>\<newline>                                <pre>'' @
            escapeHtml (expected_output test) @
            ''</pre>\<newline>                            </div>\<newline>                            <div class="test-result-output">\<newline>                                <label>Your Output:</label>\<newline>                                <pre>'' @
            escapeHtml (js_or (actual_output test) (JStr [])) @
            ''</pre>\<newline>                            </div>\<newline>                        </div>\<newline>                    ''
          else []) @
         ''</div>'')\<close>

text \<open>
  \<open>displaySubmissionResult\<close> returns the page and whether it threw: \<open>score.toFixed\<close>
  throws before the summary is written, \<open>test_results.forEach\<close> after it.
\<close>

definition displaySubmissionResult :: "response \<Rightarrow> workspace \<Rightarrow> workspace \<times> bool" where
  \<open>displaySubmissionResult r st =
     (case toFixed1 (score r) of
        None \<Rightarrow> (st, True)
      | Some shown \<Rightarrow>
          (let st1 = st\<lparr>test_summary :=
                 ''\<newline>                '' @
                 toString (passed_tests r) @
                 ''/'' @
                 toString (total_tests r) @
                 '' tests passed | \<newline>                Score: '' @
                 shown @
                 ''/'' @
                 toString (max_score r) @
                 ''\<newline>            ''\<rparr>
           in case test_results r of
                None \<Rightarrow> (st1, True)
              | Some tests \<Rightarrow> (st1\<lparr>test_results_list := concat (map render_test tests)\<rparr>, False)))\<close>

definition updateScoreDisplay :: "jsval \<Rightarrow> jsval \<Rightarrow> workspace \<Rightarrow> workspace \<times> bool" where
  "updateScoreDisplay currentScore maxScore st =
     (case toFixed1 currentScore of
        None \<Rightarrow> (st, True)
      | Some shown \<Rightarrow> (st\<lparr>current_score := shown\<rparr>, False))"

subsection \<open>Operations and the continuations of their handler calls\<close>

text \<open>\<open>saveCurrentFile\<close>: the continuation holds \<open>content\<close>; the file name is read again.\<close>

definition saveCurrentFile_then :: "string \<Rightarrow> string \<Rightarrow> outcome \<Rightarrow> workspace \<Rightarrow> workspace" where
  "saveCurrentFile_then text now res st =
     (case res of
        Resolved r \<Rightarrow>
          if truthy (success r)
          then updateStudentFiles (activeFile st) text now (removeModifiedMark (activeFile st) st)
          else showNotification ''error'' (textContent (js_or (error r) (JStr ''Failed to save file''))) st
      | Rejected \<Rightarrow> showNotification ''error'' ''Failed to save file'' st)"

definition createNewFile :: "string \<Rightarrow> string \<Rightarrow> workspace \<Rightarrow> workspace" where
  "createNewFile filenameInput languageSelect st =
     (let filename = js_trim filenameInput
      in if filename = [] then showNotification ''error'' ''File name is required'' st
         else if obj_get (studentFiles st) filename \<noteq> None
         then showNotification ''error'' ''File already exists'' st
         else st\<lparr>calls := calls st @
                [CreateCall filename (getTemplateForLanguage (Some languageSelect) st) languageSelect]\<rparr>)"

definition createNewFile_then ::
  "string \<Rightarrow> string \<Rightarrow> string \<Rightarrow> string \<Rightarrow> outcome \<Rightarrow> workspace \<Rightarrow> workspace" where
  "createNewFile_then filename text lang now res st =
     (case res of
        Resolved r \<Rightarrow>
          if truthy (success r)
          then showNotification ''success'' (''File '' @ [CHR 0x27] @ filename @ [CHR 0x27] @ '' created successfully'')
                 (hideModal (switchToFile filename (Some lang) (addFileTab filename lang
                    (st\<lparr>studentFiles := obj_set filename
                          \<lparr>content = Some text, language = Some lang,
                           created_at = Some now, modified_at = Some now\<rparr>
                          (studentFiles st)\<rparr>))))
          else showNotification ''error'' (textContent (js_or (error r) (JStr ''Failed to create file''))) st
      | Rejected \<Rightarrow> showNotification ''error'' ''Failed to create file'' st)"


definition deleteFile_then :: "string \<Rightarrow> outcome \<Rightarrow> workspace \<Rightarrow> workspace" where
  "deleteFile_then filename res st =
     (case res of
        Resolved r \<Rightarrow>
          if truthy (success r)
          then
            (let st1 = removeFileTab filename
                         (st\<lparr>studentFiles := obj_delete filename (studentFiles st)\<rparr>);
                 st2 = (if activeFile st1 = filename
                        then (case obj_keys (studentFiles st1) of
                                [] \<Rightarrow> st1
                              | firstFile # others \<Rightarrow>
                                  (case obj_get (studentFiles st1) firstFile of
                                     Some firstFileData \<Rightarrow>
                                       switchToFile firstFile (language firstFileData) st1
                                   | None \<Rightarrow> st1))
                        else st1)
             in showNotification ''success'' (textContent (message r)) st2)
          else showNotification ''error'' (textContent (js_or (error r) (JStr ''Failed to delete file''))) st
      | Rejected \<Rightarrow> showNotification ''error'' ''Failed to delete file'' st)"

text \<open>
  \<open>callHandler\<close> returns \<open>$.post(...).then(...)\<close>, a jQuery promise: it has the methods
  \<open>then\<close> and \<open>catch\<close> (and \<open>always\<close>), and no method \<open>finally\<close>. \<open>runCode\<close>,
  \<open>runCodeWithInput\<close> and \<open>submitSolution\<close> issue the call, register the \<open>then\<close> and the
  \<open>catch\<close> handler, and then throw a \<open>TypeError\<close> where they call \<open>.finally\<close>: the
  step \<open>setExecutionState(false)\<close> is never registered, and the continuation of the call
  runs the \<open>then\<close> or the \<open>catch\<close> handler only. \<open>runCode\<close> and \<open>submitSolution\<close> return
  the state and whether they threw.
\<close>

definition runCode :: "workspace \<Rightarrow> workspace \<times> bool" where
  "runCode st =
     (if isExecuting st then (st, False)
      else (let st1 = switchOutputTab ''console'' (setExecutionState True st)
            in (st1\<lparr>calls := calls st1 @ [RunCall (activeFile st1) []]\<rparr>, True)))"

definition runCode_then :: "outcome \<Rightarrow> workspace \<Rightarrow> workspace" where
  "runCode_then res st =
     (case res of
        Resolved r \<Rightarrow> displayExecutionResult r st
      | Rejected \<Rightarrow> displayExecutionError ''Failed to execute code'' st)"

definition submitSolution :: "bool \<Rightarrow> workspace \<Rightarrow> workspace \<times> bool" where
  "submitSolution answer st =
     (if isExecuting st then (st, False)
      else
        (let st1 = st\<lparr>confirms := confirms st @ [''Submit your solution for grading?'']\<rparr>
         in if \<not> answer then (st1, False)
            else (let st2 = switchOutputTab ''test-results'' (setExecutionState True st1)
                  in (st2\<lparr>calls := calls st2 @ [SubmitCall (activeFile st2)]\<rparr>, True))))"

definition submitSolution_then :: "outcome \<Rightarrow> workspace \<Rightarrow> workspace" where
  "submitSolution_then res st =
     (case res of
        Resolved r \<Rightarrow>
          if truthy (success r)
          then (case displaySubmissionResult r st of
                  (st1, True) \<Rightarrow> showNotification ''error'' ''Failed to submit solution'' st1
                | (st1, False) \<Rightarrow>
                    (case updateScoreDisplay (score r) (max_score r) st1 of
                       (st2, True) \<Rightarrow> showNotification ''error'' ''Failed to submit solution'' st2
                     | (st2, False) \<Rightarrow> showNotification ''success'' (textContent (message r)) st2))
          else showNotification ''error'' (textContent (js_or (error r) (JStr ''Submission failed''))) st
      | Rejected \<Rightarrow> showNotification ''error'' ''Failed to submit solution'' st)"

text \<open>The continuation of a call, run when its response arrives at clock reading \<open>now\<close>.\<close>

fun settle :: "handler_call \<Rightarrow> string \<Rightarrow> outcome \<Rightarrow> workspace \<Rightarrow> workspace" where
  "settle (SaveCall filename text lang) now res st = saveCurrentFile_then text now res st"
| "settle (CreateCall filename text lang) now res st = createNewFile_then filename text lang now res st"
| "settle (DeleteCall filename) now res st = deleteFile_then filename res st"
| "settle (RunCall filename inp) now res st = runCode_then res st"
| "settle (SubmitCall main_file) now res st = submitSolution_then res st"

section \<open>The Studio configuration form (AdvancedCodingStudioXBlock)\<close>

subsection \<open>String helpers\<close>

fun includes_str :: "string \<Rightarrow> string \<Rightarrow> bool" where
  "includes_str [] sub = (sub = [])"
| "includes_str (c # cs) sub = (take (length sub) (c # cs) = sub \<or> includes_str cs sub)"

fun split_on :: "char \<Rightarrow> string \<Rightarrow> string list" where
  "split_on sep [] = [[]]"
| "split_on sep (c # cs) =
     (if c = sep then [] # split_on sep cs
      else (c # hd (split_on sep cs)) # tl (split_on sep cs))"

definition ascii_lower :: "char \<Rightarrow> char" where
  "ascii_lower c =
     (if 65 \<le> (of_char c :: nat) \<and> (of_char c :: nat) \<le> 90 then char_of (of_char c + 32 :: nat) else c)"

text \<open>
  \<open>isNaN(Number(s))\<close>: \<open>Number\<close> trims the string and reads a \<open>StringNumericLiteral\<close>:
  nothing at all, a signed decimal literal (also \<open>Infinity\<close>), or an unsigned
  hexadecimal, octal or binary integer.
\<close>

definition exponent_part_opt :: "string \<Rightarrow> bool" where
  "exponent_part_opt s =
     (case s of
        [] \<Rightarrow> True
      | e # t \<Rightarrow>
          (e = CHR ''e'' \<or> e = CHR ''E'') \<and>
          (let ds = (case t of [] \<Rightarrow> [] | g # u \<Rightarrow> if g = CHR ''+'' \<or> g = CHR ''-'' then u else t)
           in ds \<noteq> [] \<and> list_all is_digit ds))"

definition unsigned_decimal_literal :: "string \<Rightarrow> bool" where
  "unsigned_decimal_literal s =
     (s = ''Infinity'' \<or>
      (let ip = takeWhile is_digit s; r = dropWhile is_digit s
       in case r of
            [] \<Rightarrow> ip \<noteq> []
          | c # r' \<Rightarrow>
              if c = CHR ''.''
              then (ip \<noteq> [] \<or> takeWhile is_digit r' \<noteq> []) \<and> exponent_part_opt (dropWhile is_digit r')
              else ip \<noteq> [] \<and> exponent_part_opt r))"

definition decimal_literal :: "string \<Rightarrow> bool" where
  "decimal_literal s =
     (case s of
        [] \<Rightarrow> False
      | c # t \<Rightarrow> if c = CHR ''+'' \<or> c = CHR ''-'' then unsigned_decimal_literal t
                 else unsigned_decimal_literal s)"

definition non_decimal_literal :: "string \<Rightarrow> bool" where
  "non_decimal_literal s =
     (case s of
        z # x # ds \<Rightarrow>
          z = CHR ''0'' \<and> ds \<noteq> [] \<and>
          (if ascii_lower x = CHR ''x'' then list_all (\<lambda>d. ascii_lower d \<in> set ''0123456789abcdef'') ds
           else if ascii_lower x = CHR ''o'' then list_all (\<lambda>d. d \<in> set ''01234567'') ds
           else if ascii_lower x = CHR ''b'' then list_all (\<lambda>d. d \<in> set ''01'') ds
           else False)
      | _ \<Rightarrow> False)"

definition isNaN_Number :: "string \<Rightarrow> bool" where
  "isNaN_Number s =
     (let t = js_trim s in \<not> (t = [] \<or> decimal_literal t \<or> non_decimal_literal t))"

text \<open>
  \<open>/^https?:\/\/.+/i.test(s)\<close>: the scheme in any letter case, then one character that
  is no line terminator (LF, CR, U+2028, U+2029).
\<close>

definition dot_matches_first :: "string \<Rightarrow> bool" where
  "dot_matches_first s =
     (s \<noteq> [] \<and> hd s \<noteq> CHR 0x0A \<and> hd s \<noteq> CHR 0x0D
      \<and> take 3 s \<noteq> [CHR 0xE2, CHR 0x80, CHR 0xA8] \<and> take 3 s \<noteq> [CHR 0xE2, CHR 0x80, CHR 0xA9])"

definition urlPattern_test :: "string \<Rightarrow> bool" where
  "urlPattern_test s =
     ((map ascii_lower (take 7 s) = ''http://'' \<and> dot_matches_first (drop 7 s)) \<or>
      (map ascii_lower (take 8 s) = ''https://'' \<and> dot_matches_first (drop 8 s)))"

text \<open>
  \<open>name.replace(/\[\d+\]/, r)\<close>: the leftmost bracketed run of digits is replaced.
  \<open>match_index s\<close> matches the pattern at the head of \<open>s\<close> (the digits and what follows the
  closing bracket), \<open>find_index s\<close> finds the leftmost match (what precedes it, the digits,
  what follows).
\<close>

definition match_index :: "string \<Rightarrow> (string \<times> string) option" where
  "match_index s =
     (case s of
        [] \<Rightarrow> None
      | c # t \<Rightarrow>
          if c = CHR ''['' \<and> takeWhile is_digit t \<noteq> [] \<and> take 1 (dropWhile is_digit t) = '']''
          then Some (takeWhile is_digit t, drop 1 (dropWhile is_digit t))
          else None)"

fun find_index :: "string \<Rightarrow> (string \<times> string \<times> string) option" where
  "find_index [] = None"
| "find_index (c # cs) =
     (case match_index (c # cs) of
        Some (ds, rest) \<Rightarrow> Some ([], ds, rest)
      | None \<Rightarrow> map_option (\<lambda>(pre, ds, rest). (c # pre, ds, rest)) (find_index cs))"

definition replace_index :: "string \<Rightarrow> string \<Rightarrow> string" where
  "replace_index s r = (case find_index s of None \<Rightarrow> s | Some (pre, ds, rest) \<Rightarrow> pre @ r @ rest)"

subsection \<open>The form\<close>

text \<open>
  A field is an element of the form with its \<open>name\<close> and \<open>data-validate\<close> attributes,
  the string \<open>.val()\<close> returns, its class list, and the texts of the
  \<open>.validation-feedback\<close> siblings (each validated field is alone in its wrapper, as in
  the two block templates). A block is a \<open>.test-case-item\<close> or a \<open>.language-item\<close>.
  \<open>tests_in_form\<close> and \<open>langs_in_form\<close> say whether the two lists stand inside the
  \<open>form\<close> element; \<open>form_fields\<close> are the fields of the form outside both lists.
\<close>

record field =
  tag :: string
  name_attr :: "string option"
  val :: string
  data_validate :: "string option"
  classes :: "string list"
  feedback :: "string list"

record block =
  title :: string
  inputs :: "field list"

record studio =
  test_cases :: "block list"
  languages :: "block list"
  form_fields :: "field list"
  tests_in_form :: bool
  langs_in_form :: bool
  save_disabled :: bool
  validation_messages :: "(string \<times> string) list"
  studio_notifications :: "(string \<times> string) list"

definition addClass :: "string \<Rightarrow> string list \<Rightarrow> string list" where
  "addClass c cs = (if c \<in> set cs then cs else cs @ [c])"

definition validations :: "field \<Rightarrow> string list" where
  "validations f = split_on CHR '','' (case data_validate f of None \<Rightarrow> [] | Some s \<Rightarrow> s)"

text \<open>\<open>validateField\<close> returns \<open>isValid\<close> and the field with its new classes and feedback.\<close>

definition validateField :: "field \<Rightarrow> bool \<times> field" where
  "validateField f =
     (let v = js_trim (val f);
          rules = validations f;
          f0 = f\<lparr>feedback := [], classes := removeAll ''warning'' (removeAll ''error'' (classes f))\<rparr>;
          (isValid1, msg1) =
             (if ''required'' \<in> set rules \<and> v = [] then (False, ''This field is required'')
              else (True, []));
          (isValid2, msg2) =
             (if ''number'' \<in> set rules \<and> v \<noteq> [] \<and> isNaN_Number v
              then (False, ''Please enter a valid number'')
              else (isValid1, msg1));
          (isValid, msg) =
             (if ''url'' \<in> set rules \<and> v \<noteq> [] \<and> \<not> urlPattern_test v
              then (False, ''Please enter a valid URL starting with http:// or https://'')
              else (isValid2, msg2))
      in if \<not> isValid
         then (isValid, f0\<lparr>classes := addClass ''error'' (classes f0), feedback := [msg]\<rparr>)
         else if ''required'' \<in> set rules \<and> v \<noteq> []
         then (isValid, f0\<lparr>classes := addClass ''success'' (classes f0)\<rparr>)
         else (isValid, f0))"

text \<open>
  The loop of \<open>validateForm\<close> over the elements matching
  \<open>[data-validate*="required"]\<close>: the flag so far, and the fields as they are left.
\<close>

definition required_selected :: "field \<Rightarrow> bool" where
  "required_selected f =
     (case data_validate f of None \<Rightarrow> False | Some s \<Rightarrow> includes_str s ''required'')"

fun validate_each :: "field list \<Rightarrow> bool \<Rightarrow> bool \<times> field list" where
  "validate_each [] isValid = (isValid, [])"
| "validate_each (f # fs) isValid =
     (if required_selected f
      then (let (ok, f') = validateField f;
                (isValid', fs') = validate_each fs (if \<not> ok then False else isValid)
            in (isValid', f' # fs'))
      else (let (isValid', fs') = validate_each fs isValid in (isValid', f # fs')))"

fun validate_blocks :: "block list \<Rightarrow> bool \<Rightarrow> bool \<times> block list" where
  "validate_blocks [] isValid = (isValid, [])"
| "validate_blocks (b # bs) isValid =
     (let (isValid1, fs') = validate_each (inputs b) isValid;
          (isValid2, bs') = validate_blocks bs isValid1
      in (isValid2, b\<lparr>inputs := fs'\<rparr> # bs'))"

definition showValidationMessage :: "string \<Rightarrow> string \<Rightarrow> studio \<Rightarrow> studio" where
  "showValidationMessage type msg st =
     st\<lparr>validation_messages := validation_messages st @ [(type, msg)]\<rparr>"

definition studio_showNotification :: "string \<Rightarrow> string \<Rightarrow> studio \<Rightarrow> studio" where
  "studio_showNotification type msg st =
     st\<lparr>studio_notifications := studio_notifications st @ [(type, msg)]\<rparr>"

definition validateForm :: "studio \<Rightarrow> bool \<times> studio" where
  "validateForm st =
     (let (isValid1, ffs) = validate_each (form_fields st) True;
          (isValid2, tcs) = (if tests_in_form st then validate_blocks (test_cases st) isValid1
                             else (isValid1, test_cases st));
          (isValid3, ls) = (if langs_in_form st then validate_blocks (languages st) isValid2
                            else (isValid2, languages st));
          st1 = st\<lparr>form_fields := ffs, test_cases := tcs, languages := ls\<rparr>;
          (isValid4, st2) =
             (if length (test_cases st1) = 0
              then (False, showValidationMessage ''error'' ''At least one test case is required'' st1)
              else (isValid3, st1));
          (isValid, st3) =
             (if length (languages st2) = 0
              then (False, showValidationMessage ''error''
                             ''At least one programming language must be supported'' st2)
              else (isValid4, st2))
      in (isValid, st3\<lparr>save_disabled := \<not> isValid\<rparr>))"

subsection \<open>Repeated blocks\<close>

definition text_input :: "string \<Rightarrow> string \<Rightarrow> string \<Rightarrow> string option \<Rightarrow> string list \<Rightarrow> field" where
  "text_input t n v rules cs =
     \<lparr>tag = t, name_attr = Some n, val = v, data_validate = rules, classes = cs, feedback = []\<rparr>"

definition createTestCaseHtml :: "string \<Rightarrow> nat \<Rightarrow> block" where
  "createTestCaseHtml testId index =
     (let i = show_int (int index - 1)
      in \<lparr>title = ''Test Case '' @ show_nat index,
          inputs =
            [text_input ''input'' (''test_cases['' @ i @ ''][id]'') testId (Some ''required'') [''field-input''],
             text_input ''input'' (''test_cases['' @ i @ ''][name]'') (''Test Case '' @ show_nat index)
               (Some ''required'') [''field-input''],
             text_input ''input'' (''test_cases['' @ i @ ''][points]'') ''10'' (Some ''number'') [''field-input''],
             text_input ''input'' (''test_cases['' @ i @ ''][timeout]'') ''2.0'' (Some ''number'') [''field-input''],
             text_input ''textarea'' (''test_cases['' @ i @ ''][input]'') [] None [''field-input''],
             text_input ''textarea'' (''test_cases['' @ i @ ''][expected_output]'') [] (Some ''required'')
               [''field-input''],
             text_input ''input'' (''test_cases['' @ i @ ''][is_public]'') ''on'' None []]\<rparr>)"

definition createLanguageHtml :: "string \<Rightarrow> nat \<Rightarrow> block" where
  "createLanguageHtml languageKey index =
     \<lparr>title = ''Programming Language '' @ show_nat index,
      inputs =
        [text_input ''input'' (''supported_languages['' @ languageKey @ ''][key]'') languageKey
           (Some ''required'') [''field-input''],
         text_input ''input'' (''supported_languages['' @ languageKey @ ''][name]'')
           (''Language '' @ show_nat index) (Some ''required'') [''field-input''],
         text_input ''input'' (''supported_languages['' @ languageKey @ ''][id]'') ''71''
           (Some ''required,number'') [''field-input''],
         text_input ''input'' (''supported_languages['' @ languageKey @ ''][extension]'') ''py''
           (Some ''required'') [''field-input''],
         text_input ''textarea'' (''supported_languages['' @ languageKey @ ''][template]'')
           (''# Write your code here\<newline>print('' @ [CHR 0x27] @ ''Hello, World!'' @ [CHR 0x27] @ '')'')
           (Some ''required'') [''field-input'', ''field-textarea'']]\<rparr>"

definition rename_input :: "nat \<Rightarrow> field \<Rightarrow> field" where
  "rename_input index inp =
     (if tag inp = ''input'' \<or> tag inp = ''textarea''
      then (case name_attr inp of
              None \<Rightarrow> inp
            | Some n \<Rightarrow>
                if n \<noteq> [] \<and> includes_str n ''['' \<and> includes_str n '']''
                then inp\<lparr>name_attr := Some (replace_index n (''['' @ show_nat index @ '']''))\<rparr>
                else inp)
      else inp)"

fun reindex_test_cases :: "nat \<Rightarrow> block list \<Rightarrow> block list" where
  "reindex_test_cases index [] = []"
| "reindex_test_cases index (b # bs) =
     b\<lparr>title := ''Test Case '' @ show_nat (index + 1), inputs := map (rename_input index) (inputs b)\<rparr>
       # reindex_test_cases (index + 1) bs"

definition updateTestCaseIndexes :: "studio \<Rightarrow> studio" where
  "updateTestCaseIndexes st = st\<lparr>test_cases := reindex_test_cases 0 (test_cases st)\<rparr>"

fun retitle_languages :: "nat \<Rightarrow> block list \<Rightarrow> block list" where
  "retitle_languages index [] = []"
| "retitle_languages index (b # bs) =
     b\<lparr>title := ''Programming Language '' @ show_nat (index + 1)\<rparr> # retitle_languages (index + 1) bs"

definition updateLanguageIndexes :: "studio \<Rightarrow> studio" where
  "updateLanguageIndexes st = st\<lparr>languages := retitle_languages 0 (languages st)\<rparr>"

definition addTestCase :: "studio \<Rightarrow> studio" where
  "addTestCase st =
     (let testCaseCount = length (test_cases st);
          testCaseId = ''test_'' @ show_nat (testCaseCount + 1);
          st1 = st\<lparr>test_cases := test_cases st @ [createTestCaseHtml testCaseId (testCaseCount + 1)]\<rparr>
      in snd (validateForm (updateTestCaseIndexes st1)))"

text \<open>\<open>removeTestCase\<close> and \<open>removeLanguage\<close>: \<open>k\<close> is the position of the block clicked.\<close>

definition removeTestCase :: "nat \<Rightarrow> studio \<Rightarrow> studio" where
  "removeTestCase k st =
     (if length (test_cases st) \<le> 1
      then studio_showNotification ''error'' ''At least one test case is required'' st
      else snd (validateForm (updateTestCaseIndexes
             (st\<lparr>test_cases := take k (test_cases st) @ drop (Suc k) (test_cases st)\<rparr>))))"

definition addLanguage :: "studio \<Rightarrow> studio" where
  "addLanguage st =
     (let languageCount = length (languages st);
          languageKey = ''language_'' @ show_nat (languageCount + 1);
          st1 = st\<lparr>languages := languages st @ [createLanguageHtml languageKey (languageCount + 1)]\<rparr>
      in snd (validateForm (updateLanguageIndexes st1)))"

definition removeLanguage :: "nat \<Rightarrow> studio \<Rightarrow> studio" where
  "removeLanguage k st =
     (if length (languages st) \<le> 1
      then studio_showNotification ''error'' ''At least one programming language must be supported'' st
      else snd (validateForm (updateLanguageIndexes
             (st\<lparr>languages := take k (languages st) @ drop (Suc k) (languages st)\<rparr>))))"

datatype studio_op = AddTestCase | RemoveTestCase nat | AddLanguage | RemoveLanguage nat

fun studio_step :: "studio_op \<Rightarrow> studio \<Rightarrow> studio" where
  "studio_step AddTestCase st = addTestCase st"
| "studio_step (RemoveTestCase k) st = removeTestCase k st"
| "studio_step AddLanguage st = addLanguage st"
| "studio_step (RemoveLanguage k) st = removeLanguage k st"

definition studio_run :: "studio_op list \<Rightarrow> studio \<Rightarrow> studio" where
  "studio_run ops st = foldl (\<lambda>s op. studio_step op s) st ops"

subsection \<open>Indexed names, selected fields and failing rules\<close>

text \<open>
  The index of a name is the leftmost bracketed run of digits in it. The inputs of the
  block at position \<open>i\<close> are indexed when each name carries the decimal numeral of \<open>i\<close>
  there; a name is indexable when it has such a run at all.
\<close>

definition name_index :: "string \<Rightarrow> string option" where
  "name_index n = map_option (\<lambda>(pre, ds, rest). ds) (find_index n)"

definition is_input :: "field \<Rightarrow> bool" where
  "is_input inp = (tag inp = ''input'' \<or> tag inp = ''textarea'')"

definition input_indexed :: "nat \<Rightarrow> field \<Rightarrow> bool" where
  "input_indexed i inp =
     (if is_input inp
      then (case name_attr inp of None \<Rightarrow> True | Some n \<Rightarrow> name_index n = Some (show_nat i))
      else True)"

fun blocks_indexed :: "nat \<Rightarrow> block list \<Rightarrow> bool" where
  "blocks_indexed i [] = True"
| "blocks_indexed i (b # bs) = (list_all (input_indexed i) (inputs b) \<and> blocks_indexed (i + 1) bs)"

definition test_cases_indexed :: "studio \<Rightarrow> bool" where
  "test_cases_indexed st = blocks_indexed 0 (test_cases st)"

definition languages_indexed :: "studio \<Rightarrow> bool" where
  "languages_indexed st = blocks_indexed 0 (languages st)"

definition input_indexable :: "field \<Rightarrow> bool" where
  "input_indexable inp =
     (if is_input inp
      then (case name_attr inp of None \<Rightarrow> True | Some n \<Rightarrow> find_index n \<noteq> None)
      else True)"

text \<open>The fields that \<open>$form.find('[data-validate*="required"]')\<close> selects.\<close>

definition required_fields_of_form :: "studio \<Rightarrow> field list" where
  "required_fields_of_form st =
     filter required_selected
       (form_fields st
        @ (if tests_in_form st then concat (map inputs (test_cases st)) else [])
        @ (if langs_in_form st then concat (map inputs (languages st)) else []))"

text \<open>
  The three rules as the form's description words them, in the order \<open>required\<close>,
  \<open>number\<close>, \<open>url\<close>: whether a rule that the field declares fails on its trimmed value
  (\<open>number\<close> and \<open>url\<close> are checked on a value that is not empty), and its message.
\<close>

definition rule_fails :: "string \<Rightarrow> field \<Rightarrow> bool" where
  "rule_fails rule f =
     (rule \<in> set (validations f) \<and>
      (if rule = ''required'' then js_trim (val f) = []
       else if rule = ''number'' then js_trim (val f) \<noteq> [] \<and> isNaN_Number (js_trim (val f))
       else if rule = ''url'' then js_trim (val f) \<noteq> [] \<and> \<not> urlPattern_test (js_trim (val f))
       else False))"

definition rule_message :: "string \<Rightarrow> string" where
  "rule_message rule =
     (if rule = ''required'' then ''This field is required''
      else if rule = ''number'' then ''Please enter a valid number''
      else ''Please enter a valid URL starting with http:// or https://'')"

definition failing_rules :: "field \<Rightarrow> string list" where
  "failing_rules f = filter (\<lambda>rule. rule_fails rule f) [''required'', ''number'', ''url'']"

subsection \<open>Lexicographic order of names\<close>

text \<open>The order of strings by their bytes, and the least name of a non-empty list.\<close>

fun str_less :: "string \<Rightarrow> string \<Rightarrow> bool" where
  "str_less [] [] = False"
| "str_less [] (y # ys) = True"
| "str_less (x # xs) [] = False"
| "str_less (x # xs) (y # ys) =
     ((of_char x :: nat) < of_char y \<or> (x = y \<and> str_less xs ys))"

definition lexicographically_first :: "string list \<Rightarrow> string" where
  "lexicographically_first ks = foldl (\<lambda>a k. if str_less k a then k else a) (hd ks) (tl ks)"

section \<open>Example states\<close>

text \<open>
  The two-file workspace of the scenario with \<open>main.py\<close> active, and variants of it. In
  \<open>pending_save_workspace\<close> the user edited \<open>main.py\<close>, switched to \<open>util.py\<close> and edited
  it too while the save call for \<open>main.py\<close> is pending: both tabs carry the modified mark.
\<close>

definition scenario_files :: "file_data js_object" where
  "scenario_files =
     [(''main.py'', \<lparr>content = Some ''print(1)'', language = Some ''python'', created_at = None, modified_at = None\<rparr>),
      (''util.py'', \<lparr>content = Some ''x = 2'', language = Some ''python'', created_at = None, modified_at = None\<rparr>)]"

definition scenario_workspace :: workspace where
  "scenario_workspace =
     \<lparr>studentFiles = scenario_files,
      supportedLanguages = [(''python'', \<lparr>template = ''# Write your code here''\<rparr>)],
      currentLanguage = Some ''python'',
      activeFile = ''main.py'',
      editor = Monaco ''print(1)'' ''python'',
      autoSaveTimeout = False,
      isExecuting = False,
      currentModal = None,
      modal_shown = False,
      modal_language_disabled = False,
      file_tabs =
        [\<lparr>data_filename = ''main.py'', data_language = ''python'', tab_name = ''main.py'',
          modified = False, active = True, tab_close = True\<rparr>,
         \<lparr>data_filename = ''util.py'', data_language = ''python'', tab_name = ''util.py'',
          modified = False, active = False, tab_close = True\<rparr>],
      language_select = Some ''python'',
      loading_shown = False,
      run_code_btn_disabled = False,
      run_with_input_btn_disabled = False,
      submit_solution_btn_disabled = False,
      output_tab = ''console'',
      console_output = [],
      test_summary = [],
      test_results_list = [],
      current_score = ''0.0'',
      notifications = [],
      confirms = [],
      calls = []\<rparr>"

definition ok_response :: response where
  "ok_response =
     \<lparr>success = JBool True, error = JUndefined, message = JUndefined, run_output = JUndefined,
      compile_output = JUndefined, status = None, time = JUndefined, memory = JUndefined,
      score = JUndefined, max_score = JUndefined, passed_tests = JUndefined,
      total_tests = JUndefined, test_results = None\<rparr>"


definition unordered_workspace :: workspace where
  "unordered_workspace =
     scenario_workspace
       \<lparr>studentFiles :=
          [(''z.py'', \<lparr>content = Some ''z = 0'', language = Some ''python'', created_at = None, modified_at = None\<rparr>),
           (''m.py'', \<lparr>content = Some ''m = 0'', language = Some ''python'', created_at = None, modified_at = None\<rparr>),
           (''a.py'', \<lparr>content = Some ''a = 0'', language = Some ''python'', created_at = None, modified_at = None\<rparr>)],
        activeFile := ''z.py'',
        editor := Monaco ''z = 0'' ''python'',
        file_tabs :=
          [\<lparr>data_filename = ''z.py'', data_language = ''python'', tab_name = ''z.py'',
            modified = False, active = True, tab_close = True\<rparr>,
           \<lparr>data_filename = ''m.py'', data_language = ''python'', tab_name = ''m.py'',
            modified = False, active = False, tab_close = True\<rparr>,
           \<lparr>data_filename = ''a.py'', data_language = ''python'', tab_name = ''a.py'',
            modified = False, active = False, tab_close = True\<rparr>]\<rparr>"

definition pending_save_workspace :: workspace where
  "pending_save_workspace =
     scenario_workspace
       \<lparr>activeFile := ''util.py'', editor := Monaco ''x = 3'' ''python'',
        file_tabs :=
          [\<lparr>data_filename = ''main.py'', data_language = ''python'', tab_name = ''main.py*'',
            modified = True, active = False, tab_close = True\<rparr>,
           \<lparr>data_filename = ''util.py'', data_language = ''python'', tab_name = ''util.py*'',
            modified = True, active = True, tab_close = True\<rparr>],
        calls := [SaveCall ''main.py'' ''print(2)'' (Some ''python'')]\<rparr>"

definition failed_response :: response where
  "failed_response = ok_response\<lparr>success := JBool False, error := JStr ''Compilation error''\<rparr>"

definition markup_status_response :: response where
  "markup_status_response = ok_response\<lparr>status := Some (JStr ''<img src=x onerror=alert(1)>'')\<rparr>"

definition markup_points_test :: test_result where
  "markup_points_test =
     \<lparr>name = JStr ''t1'', passed = JBool True, points = JNum 10, earned_points = JStr ''<b>1</b>'',
      is_public = JBool False, expected_output = JUndefined, actual_output = JUndefined\<rparr>"

text \<open>
  Studio forms: one test case and one language as the two templates make them; a form
  with a field that declares only the \<open>url\<close> rule; a field that declares \<open>number\<close> and
  \<open>url\<close>.
\<close>

definition one_each_studio :: studio where
  "one_each_studio =
     \<lparr>test_cases = [createTestCaseHtml ''test_1'' 1],
      languages = [createLanguageHtml ''language_1'' 1],
      form_fields = [],
      tests_in_form = True, langs_in_form = True, save_disabled = False,
      validation_messages = [], studio_notifications = []\<rparr>"

definition api_host_field :: field where
  "api_host_field =
     text_input ''input'' ''judge0_api_host'' ''localhost:2358'' (Some ''url'') [''field-input'']"

definition api_host_studio :: studio where
  "api_host_studio =
     \<lparr>test_cases =
        [\<lparr>title = ''Test Case 1'',
          inputs = [text_input ''input'' ''test_cases[0][id]'' ''test_1'' (Some ''required'') [''field-input'']]\<rparr>],
      languages =
        [\<lparr>title = ''Programming Language 1'',
          inputs = [text_input ''input'' ''supported_languages[python][key]'' ''python'' (Some ''required'')
                      [''field-input'']]\<rparr>],
      form_fields = [api_host_field],
      tests_in_form = True, langs_in_form = True, save_disabled = False,
      validation_messages = [], studio_notifications = []\<rparr>"

definition number_url_field :: field where
  "number_url_field = text_input ''input'' ''limit'' ''abc'' (Some ''number,url'') [''field-input'']"

section \<open>Properties of the student workspace\<close>

subsection \<open>Objects and tabs\<close>

lemma obj_get_obj_set: "obj_get (obj_set k v ps) k' = (if k' = k then Some v else obj_get ps k')"
  by (induction ps) (auto simp: obj_get_def)

lemma obj_get_obj_delete: "obj_get (obj_delete k ps) k' = (if k' = k then None else obj_get ps k')"
  by (induction ps) (auto simp: obj_get_def obj_delete_def)

lemma set_obj_keys: "set (obj_keys ps) = fst ` set ps"
  by (auto simp: obj_keys_def Let_def)


lemma find_update_tab:
  "find (\<lambda>t. data_filename t = g) (update_tab g f ts) =
     map_option f (find (\<lambda>t. data_filename t = g) ts)"
  if "\<And>t. data_filename (f t) = data_filename t"
  using that by (induction ts) auto

lemma map_data_filename_update_tab:
  "(\<And>t. data_filename (f t) = data_filename t) \<Longrightarrow>
     map data_filename (update_tab g f ts) = map data_filename ts"
  by (induction ts) auto

lemma filter_other_update_tab:
  "(\<And>t. data_filename (f t) = data_filename t) \<Longrightarrow>
     filter (\<lambda>t. data_filename t \<noteq> g) (update_tab g f ts) = filter (\<lambda>t. data_filename t \<noteq> g) ts"
  by (induction ts) auto

lemma map_data_filename_removeFirstTab:
  "map data_filename (removeFirstTab g ts) = remove1 g (map data_filename ts)"
  by (induction ts) auto

lemma switchToFile_other:
  "activeFile st \<noteq> filename \<Longrightarrow>
     activeFile (switchToFile filename lang st) = filename
     \<and> studentFiles (switchToFile filename lang st) = studentFiles st
     \<and> map data_filename (file_tabs (switchToFile filename lang st)) = map data_filename (file_tabs st)
     \<and> notifications (switchToFile filename lang st) = notifications st"
  by (cases "editor st")
     (simp_all add: switchToFile_def updateLanguageSelector_def updateFileTabsUI_def
        loadActiveFile_def saveCurrentFile_def onEditorContentChange_def markFileAsModified_def
        map_data_filename_update_tab Let_def comp_def)

lemma obj_keys_remaining:
  assumes "2 \<le> card (fst ` set ps)"
  shows "obj_keys (obj_delete f ps) \<noteq> []"
proof
  assume "obj_keys (obj_delete f ps) = []"
  then have "set (obj_keys (obj_delete f ps)) = {}" by simp
  then have "fst ` set ps \<subseteq> {f}"
    by (auto simp: set_obj_keys obj_delete_def)
  then have "card (fst ` set ps) \<le> card {f}"
    by (intro card_mono) auto
  with assms show False by simp
qed

subsection \<open>Switching to the active file\<close>

text \<open>
  C10: \<open>switchToFile\<close> called with the name of the file that is already active returns at
  once: no save call is issued, the editor is not reloaded, no tab or selector is touched;
  the whole workspace state is the one before the call.
\<close>

theorem switchToFile_active_noop: "switchToFile (activeFile st) lang st = st"
  by (simp add: switchToFile_def)

subsection \<open>Deleting the only file\<close>




subsection \<open>The execution flag\<close>

text \<open>
  C6: the executing flag is not restored. After \<open>runCode\<close> the flag \<open>isExecuting\<close> is
  true, and the continuation of a \<open>run_code\<close> call leaves the flag, the three run and
  submit controls and the loading overlay as they are, whatever the outcome (a response
  with a truthy or a falsy \<open>success\<close>, or a rejected call): the restoring step was written
  as \<open>.finally(...)\<close> on a promise that has no such method. In the scenario workspace
  \<open>runCode\<close> throws after the call is issued, and after any outcome the flag is still
  true and the controls are still disabled.
\<close>

theorem runCode_never_restores:
  "isExecuting (fst (runCode st))
   \<and> isExecuting (settle (RunCall filename inp) now res st) = isExecuting st
   \<and> run_code_btn_disabled (settle (RunCall filename inp) now res st) = run_code_btn_disabled st
   \<and> run_with_input_btn_disabled (settle (RunCall filename inp) now res st) = run_with_input_btn_disabled st
   \<and> submit_solution_btn_disabled (settle (RunCall filename inp) now res st) = submit_solution_btn_disabled st
   \<and> loading_shown (settle (RunCall filename inp) now res st) = loading_shown st
   \<and> snd (runCode scenario_workspace)
   \<and> calls (fst (runCode scenario_workspace)) = [RunCall ''main.py'' []]
   \<and> isExecuting (settle (RunCall ''main.py'' []) now res (fst (runCode scenario_workspace)))
   \<and> run_code_btn_disabled (settle (RunCall ''main.py'' []) now res (fst (runCode scenario_workspace)))
   \<and> run_with_input_btn_disabled (settle (RunCall ''main.py'' []) now res (fst (runCode scenario_workspace)))
   \<and> submit_solution_btn_disabled (settle (RunCall ''main.py'' []) now res (fst (runCode scenario_workspace)))"
proof -
  have keep: "isExecuting (runCode_then res s) = isExecuting s
      \<and> run_code_btn_disabled (runCode_then res s) = run_code_btn_disabled s
      \<and> run_with_input_btn_disabled (runCode_then res s) = run_with_input_btn_disabled s
      \<and> submit_solution_btn_disabled (runCode_then res s) = submit_solution_btn_disabled s
      \<and> loading_shown (runCode_then res s) = loading_shown s" for s
    by (cases res) (simp_all add: runCode_then_def displayExecutionResult_def displayExecutionError_def)
  have started: "isExecuting (fst (runCode s))" for s
    by (simp add: runCode_def Let_def switchOutputTab_def setExecutionState_def)
  have scenario: "snd (runCode scenario_workspace)
      \<and> calls (fst (runCode scenario_workspace)) = [RunCall ''main.py'' []]
      \<and> run_code_btn_disabled (fst (runCode scenario_workspace))
      \<and> run_with_input_btn_disabled (fst (runCode scenario_workspace))
      \<and> submit_solution_btn_disabled (fst (runCode scenario_workspace))"
    by (simp add: runCode_def Let_def switchOutputTab_def setExecutionState_def scenario_workspace_def)
  show ?thesis
    using keep started scenario by simp
qed

subsection \<open>A save response that arrives after a switch\<close>

text \<open>
  C5: the success continuation of \<open>saveCurrentFile\<close> reads the active file when the
  response arrives. When a save call with content \<open>c\<close> for file \<open>f\<close> is pending and the
  active file is by then \<open>g \<noteq> f\<close>, a successful response stores \<open>c\<close> as the content of
  \<open>g\<close>, sets the language of \<open>g\<close> to the current language, clears the dirty mark of \<open>g\<close>,
  and does not change what is stored for \<open>f\<close>. Clearing the mark: the tab of \<open>g\<close> (the
  first tab of that name) is still there, is no longer \<open>modified\<close> and, if it was, has lost
  the first star of its label; no tab is added or removed, and the tabs of the other
  files (that of \<open>f\<close> too, with its mark) are as they were.
\<close>

theorem save_response_applies_to_active_file:
  assumes "SaveCall f c l \<in> set (calls st)" and "activeFile st = g" and "g \<noteq> f"
    and "truthy (success r)"
  shows "map_option content (obj_get (studentFiles (settle (SaveCall f c l) now (Resolved r) st)) g) = Some (Some c)
    \<and> map_option language (obj_get (studentFiles (settle (SaveCall f c l) now (Resolved r) st)) g) = Some (currentLanguage st)
    \<and> map_option modified (find (\<lambda>t. data_filename t = g) (file_tabs (settle (SaveCall f c l) now (Resolved r) st))) =
        map_option (\<lambda>t. False) (find (\<lambda>t. data_filename t = g) (file_tabs st))
    \<and> map_option tab_name (find (\<lambda>t. data_filename t = g) (file_tabs (settle (SaveCall f c l) now (Resolved r) st))) =
        map_option (\<lambda>t. if modified t then remove_first CHR ''*'' (tab_name t) else tab_name t)
          (find (\<lambda>t. data_filename t = g) (file_tabs st))
    \<and> map data_filename (file_tabs (settle (SaveCall f c l) now (Resolved r) st)) = map data_filename (file_tabs st)
    \<and> filter (\<lambda>t. data_filename t \<noteq> g) (file_tabs (settle (SaveCall f c l) now (Resolved r) st)) =
        filter (\<lambda>t. data_filename t \<noteq> g) (file_tabs st)
    \<and> obj_get (studentFiles (settle (SaveCall f c l) now (Resolved r) st)) f = obj_get (studentFiles st) f"
proof -
  let ?clear = "\<lambda>t. if modified t
      then t\<lparr>modified := False, tab_name := remove_first CHR ''*'' (tab_name t)\<rparr> else t"
  have keep: "data_filename (?clear t) = data_filename t" for t
    by simp
  have result: "settle (SaveCall f c l) now (Resolved r) st =
      updateStudentFiles g c now (st\<lparr>file_tabs := update_tab g ?clear (file_tabs st)\<rparr>)"
    using assms(2,4) by (simp add: saveCurrentFile_then_def removeModifiedMark_def)
  have tabs: "file_tabs (settle (SaveCall f c l) now (Resolved r) st) = update_tab g ?clear (file_tabs st)"
    unfolding result by (simp add: updateStudentFiles_def Let_def)
  have files: "studentFiles (settle (SaveCall f c l) now (Resolved r) st) =
      obj_set g
        ((case obj_get (studentFiles st) g of
            Some fileData \<Rightarrow> fileData
          | None \<Rightarrow> \<lparr>content = None, language = None, created_at = None, modified_at = None\<rparr>)
         \<lparr>content := Some c, language := currentLanguage st, modified_at := Some now\<rparr>)
        (studentFiles st)"
    unfolding result by (simp add: updateStudentFiles_def Let_def)
  have found: "find (\<lambda>t. data_filename t = g) (update_tab g ?clear (file_tabs st)) =
      map_option ?clear (find (\<lambda>t. data_filename t = g) (file_tabs st))"
    by (rule find_update_tab) (rule keep)
  have "map_option modified (map_option ?clear (find (\<lambda>t. data_filename t = g) (file_tabs st))) =
      map_option (\<lambda>t. False) (find (\<lambda>t. data_filename t = g) (file_tabs st))"
    by (cases "find (\<lambda>t. data_filename t = g) (file_tabs st)") simp_all
  moreover have "map_option tab_name (map_option ?clear (find (\<lambda>t. data_filename t = g) (file_tabs st))) =
      map_option (\<lambda>t. if modified t then remove_first CHR ''*'' (tab_name t) else tab_name t)
        (find (\<lambda>t. data_filename t = g) (file_tabs st))"
    by (cases "find (\<lambda>t. data_filename t = g) (file_tabs st)") simp_all
  moreover have "map data_filename (update_tab g ?clear (file_tabs st)) = map data_filename (file_tabs st)"
    by (rule map_data_filename_update_tab) (rule keep)
  moreover have "filter (\<lambda>t. data_filename t \<noteq> g) (update_tab g ?clear (file_tabs st)) =
      filter (\<lambda>t. data_filename t \<noteq> g) (file_tabs st)"
    by (rule filter_other_update_tab) (rule keep)
  ultimately show ?thesis
    using assms(3) by (simp add: tabs files found obj_get_obj_set del: settle.simps)
qed

theorem save_response_applies_to_active_file_witness:
  "map_option content (obj_get (studentFiles (settle (SaveCall ''main.py'' ''print(2)'' (Some ''python'')) ''t1'' (Resolved ok_response) pending_save_workspace)) ''util.py'') = Some (Some ''print(2)'')
   \<and> map_option language (obj_get (studentFiles (settle (SaveCall ''main.py'' ''print(2)'' (Some ''python'')) ''t1'' (Resolved ok_response) pending_save_workspace)) ''util.py'') = Some (Some ''python'')
   \<and> map_option modified (find (\<lambda>t. data_filename t = ''util.py'') (file_tabs (settle (SaveCall ''main.py'' ''print(2)'' (Some ''python'')) ''t1'' (Resolved ok_response) pending_save_workspace))) = Some False
   \<and> map_option tab_name (find (\<lambda>t. data_filename t = ''util.py'') (file_tabs (settle (SaveCall ''main.py'' ''print(2)'' (Some ''python'')) ''t1'' (Resolved ok_response) pending_save_workspace))) = Some ''util.py''
   \<and> map data_filename (file_tabs (settle (SaveCall ''main.py'' ''print(2)'' (Some ''python'')) ''t1'' (Resolved ok_response) pending_save_workspace)) = [''main.py'', ''util.py'']
   \<and> filter (\<lambda>t. data_filename t \<noteq> ''util.py'') (file_tabs (settle (SaveCall ''main.py'' ''print(2)'' (Some ''python'')) ''t1'' (Resolved ok_response) pending_save_workspace)) =
       [\<lparr>data_filename = ''main.py'', data_language = ''python'', tab_name = ''main.py*'',
         modified = True, active = False, tab_close = True\<rparr>]
   \<and> obj_get (studentFiles (settle (SaveCall ''main.py'' ''print(2)'' (Some ''python'')) ''t1'' (Resolved ok_response) pending_save_workspace)) ''main.py'' = obj_get scenario_files ''main.py''"
proof -
  have a: "SaveCall ''main.py'' ''print(2)'' (Some ''python'') \<in> set (calls pending_save_workspace)"
    by (simp add: pending_save_workspace_def)
  have b: "activeFile pending_save_workspace = ''util.py''"
    by (simp add: pending_save_workspace_def)
  have c: "''util.py'' \<noteq> ''main.py''"
    by simp
  have d: "truthy (success ok_response)"
    by (simp add: ok_response_def)
  have e: "studentFiles pending_save_workspace = scenario_files"
    "currentLanguage pending_save_workspace = Some ''python''"
    "file_tabs pending_save_workspace =
       [\<lparr>data_filename = ''main.py'', data_language = ''python'', tab_name = ''main.py*'',
         modified = True, active = False, tab_close = True\<rparr>,
        \<lparr>data_filename = ''util.py'', data_language = ''python'', tab_name = ''util.py*'',
         modified = True, active = True, tab_close = True\<rparr>]"
    by (simp_all add: pending_save_workspace_def scenario_workspace_def)
  show ?thesis
    using save_response_applies_to_active_file [OF a b c d, of "''t1''"] e by simp
qed

subsection \<open>Creating a file\<close>

text \<open>
  C7: \<open>createNewFile\<close> with a name that is empty after trimming, or that is the name of
  an existing file, only shows an error notification: no handler call is issued and the
  file map is unchanged. When the \<open>save_file\<close> call was issued and fails (a response with a
  falsy \<open>success\<close>, or a rejected call), the continuation only shows an error notification
  too: nothing else of the state changes.
\<close>

theorem createNewFile_abortable:
  "(js_trim filenameInput = [] \<or> obj_get (studentFiles st) (js_trim filenameInput) \<noteq> None \<longrightarrow>
      createNewFile filenameInput languageSelect st =
        st\<lparr>notifications := notifications st @
          [(''error'', if js_trim filenameInput = [] then ''File name is required'' else ''File already exists'')]\<rparr>
      \<and> calls (createNewFile filenameInput languageSelect st) = calls st
      \<and> studentFiles (createNewFile filenameInput languageSelect st) = studentFiles st)
   \<and> (\<not> truthy (success r) \<longrightarrow>
      settle (CreateCall filename text lang) now (Resolved r) st =
        st\<lparr>notifications := notifications st @
          [(''error'', textContent (js_or (error r) (JStr ''Failed to create file'')))]\<rparr>)
   \<and> settle (CreateCall filename text lang) now Rejected st =
        st\<lparr>notifications := notifications st @ [(''error'', ''Failed to create file'')]\<rparr>"
  by (simp add: createNewFile_def createNewFile_then_def showNotification_def Let_def)

theorem createNewFile_abortable_witness:
  "js_trim ''  '' = []
   \<and> calls (createNewFile ''  '' ''python'' scenario_workspace) = []
   \<and> js_trim '' util.py '' = ''util.py''
   \<and> studentFiles (createNewFile '' util.py '' ''python'' scenario_workspace) = scenario_files
   \<and> notifications (createNewFile '' util.py '' ''python'' scenario_workspace) = [(''error'', ''File already exists'')]
   \<and> settle (CreateCall ''new.py'' ''# Write your code here'' ''python'') ''t1'' (Resolved failed_response) scenario_workspace =
        scenario_workspace\<lparr>notifications := [(''error'', ''Compilation error'')]\<rparr>"
proof -
  have blank: "js_trim ''  '' = []"
    by code_simp
  have util: "js_trim '' util.py '' = ''util.py''"
    by code_simp
  have existing: "obj_get (studentFiles scenario_workspace) (js_trim '' util.py '') \<noteq> None"
    by (simp add: util scenario_workspace_def scenario_files_def obj_get_def)
  have failed: "\<not> truthy (success failed_response)"
    by (simp add: failed_response_def)
  have "calls (createNewFile ''  '' ''python'' scenario_workspace) = []"
    using createNewFile_abortable [of "''  ''" scenario_workspace "''python''"] blank
    by (simp add: scenario_workspace_def)
  moreover have "studentFiles (createNewFile '' util.py '' ''python'' scenario_workspace) = scenario_files
      \<and> notifications (createNewFile '' util.py '' ''python'' scenario_workspace) = [(''error'', ''File already exists'')]"
    using createNewFile_abortable [of "'' util.py ''" scenario_workspace "''python''"] existing util
    by (simp add: scenario_workspace_def)
  moreover have "settle (CreateCall ''new.py'' ''# Write your code here'' ''python'') ''t1'' (Resolved failed_response) scenario_workspace =
        scenario_workspace\<lparr>notifications := [(''error'', ''Compilation error'')]\<rparr>"
    using createNewFile_abortable [of _ _ _ failed_response "''new.py''" _ "''python''" "''t1''"] failed
    by (simp add: scenario_workspace_def failed_response_def ok_response_def js_or_def)
  ultimately show ?thesis
    using blank util by simp
qed

subsection \<open>Deleting the active file\<close>

text \<open>
  C9 (as the code has it): with at least two files, a confirmed \<open>deleteFile\<close> of the
  active file that the server accepts removes the file from the file map and removes its
  tab, and makes the first remaining key of \<open>Object.keys\<close> the active file: the first in
  the enumeration order of the map (array-index names ascending, then the other names in
  insertion order), which need not be the lexicographically first name.
\<close>

theorem deleteFile_active_switches_to_first_key:
  assumes "2 \<le> card (fst ` set (studentFiles st))" and "activeFile st = filename"
    and "truthy (success r)"
  shows "obj_get (studentFiles (settle (DeleteCall filename) now (Resolved r) st)) filename = None
    \<and> map data_filename (file_tabs (settle (DeleteCall filename) now (Resolved r) st)) =
        remove1 filename (map data_filename (file_tabs st))
    \<and> activeFile (settle (DeleteCall filename) now (Resolved r) st) =
        hd (obj_keys (obj_delete filename (studentFiles st)))
    \<and> activeFile (settle (DeleteCall filename) now (Resolved r) st) \<in> fst ` set (studentFiles st) - {filename}"
proof -
  let ?rest = "obj_delete filename (studentFiles st)"
  let ?st1 = "removeFileTab filename (st\<lparr>studentFiles := ?rest\<rparr>)"
  obtain firstFile others where keys: "obj_keys ?rest = firstFile # others"
    using obj_keys_remaining [OF assms(1), of filename] by (cases "obj_keys ?rest") auto
  then have "firstFile \<in> set (obj_keys ?rest)" by simp
  then have in_rest: "firstFile \<in> fst ` set ?rest"
    by (simp add: set_obj_keys)
  then have mem: "firstFile \<in> fst ` set (studentFiles st)" and ne: "firstFile \<noteq> filename"
    by (auto simp: obj_delete_def)
  from in_rest obtain firstFileData where get: "obj_get ?rest firstFile = Some firstFileData"
    by (cases "obj_get ?rest firstFile") (auto simp: obj_get_def map_of_eq_None_iff)
  have act: "activeFile ?st1 \<noteq> firstFile"
    using ne assms(2) by (simp add: removeFileTab_def)
  have result: "settle (DeleteCall filename) now (Resolved r) st =
      showNotification ''success'' (textContent (message r))
        (switchToFile firstFile (language firstFileData) ?st1)"
    using assms(2,3) keys get by (simp add: deleteFile_then_def removeFileTab_def Let_def)
  show ?thesis
    unfolding result
    using switchToFile_other [OF act, of "language firstFileData"] keys mem ne
    by (simp add: showNotification_def removeFileTab_def obj_get_obj_delete
        map_data_filename_removeFirstTab)
qed

theorem deleteFile_active_switches_to_first_key_witness:
  "activeFile (settle (DeleteCall ''main.py'') ''t1'' (Resolved ok_response) scenario_workspace) = ''util.py''
   \<and> obj_get (studentFiles (settle (DeleteCall ''main.py'') ''t1'' (Resolved ok_response) scenario_workspace)) ''main.py'' = None
   \<and> map data_filename (file_tabs (settle (DeleteCall ''main.py'') ''t1'' (Resolved ok_response) scenario_workspace)) = [''util.py'']"
proof -
  have a: "2 \<le> card (fst ` set (studentFiles scenario_workspace))"
    by (simp add: scenario_workspace_def scenario_files_def)
  have b: "activeFile scenario_workspace = ''main.py''"
    by (simp add: scenario_workspace_def)
  have c: "truthy (success ok_response)"
    by (simp add: ok_response_def)
  have d: "obj_keys (obj_delete ''main.py'' (studentFiles scenario_workspace)) = [''util.py'']"
    by code_simp
  have e: "map data_filename (file_tabs scenario_workspace) = [''main.py'', ''util.py'']"
    by (simp add: scenario_workspace_def)
  show ?thesis
    using deleteFile_active_switches_to_first_key [OF a b c, of "''t1''"] d e by simp
qed

text \<open>
  With the files \<open>z.py\<close> (active), \<open>m.py\<close> and \<open>a.py\<close> inserted in this order, deleting
  \<open>z.py\<close> makes \<open>m.py\<close> active, while \<open>a.py\<close> is the lexicographically first name left.
\<close>

theorem deleteFile_not_lexicographically_first:
  "activeFile (settle (DeleteCall ''z.py'') ''t1'' (Resolved ok_response) unordered_workspace) = ''m.py''
   \<and> lexicographically_first (map fst (studentFiles (settle (DeleteCall ''z.py'') ''t1'' (Resolved ok_response) unordered_workspace))) = ''a.py''
   \<and> activeFile (settle (DeleteCall ''z.py'') ''t1'' (Resolved ok_response) unordered_workspace) \<noteq>
       lexicographically_first (map fst (studentFiles (settle (DeleteCall ''z.py'') ''t1'' (Resolved ok_response) unordered_workspace)))"
  by code_simp

subsection \<open>Escaping of rendered results\<close>

text \<open>
  C1: \<open>displayExecutionResult\<close> passes \<open>compile_output\<close>, \<open>output\<close> and \<open>error\<close> through
  \<open>escapeHtml\<close>, but writes \<open>status.description\<close>, \<open>time\<close> and \<open>memory\<close> into the console
  as they are; \<open>displaySubmissionResult\<close> escapes the test name and the two outputs, but
  not \<open>earned_points\<close> and \<open>points\<close>. A status description with markup reaches the page
  as markup, where \<open>escapeHtml\<close> would have produced text.
\<close>

theorem status_description_not_escaped:
  \<open>console_output (displayExecutionResult markup_status_response st) =
    ''<div class="console-section">\<newline>                        <div class="console-message">No output produced</div>\<newline>                    </div>'' @
    ''<div class="console-section">\<newline>                        <div class="console-info">\<newline>                            Status: <img src=x onerror=alert(1)> | \<newline>                            Time: 0s | \<newline>                            Memory: 0KB\<newline>                        </div>\<newline>                    </div>''
   \<and> escapeHtml (JStr ''<img src=x onerror=alert(1)>'') = ''&lt;img src=x onerror=alert(1)&gt;''
   \<and> render_test markup_points_test =
    ''\<newline>                    <div class="test-result-item passed">\<newline>                        <div class="test-result-header">\<newline>                            <div class="test-result-name">t1</div>\<newline>                            <div class="test-result-status passed">\<newline>                                '' @
    [CHR 0xE2, CHR 0x9C, CHR 0x93] @
    '' Passed\<newline>                                <span class="test-result-points"><b>1</b>/10 pts</span>\<newline>                            </div>\<newline>                        </div>\<newline>                </div>''\<close>
proof -
  have \<open>console_output (displayExecutionResult markup_status_response st) =
    ''<div class="console-section">\<newline>                        <div class="console-message">No output produced</div>\<newline>                    </div>'' @
    ''<div class="console-section">\<newline>                        <div class="console-info">\<newline>                            Status: <img src=x onerror=alert(1)> | \<newline>                            Time: 0s | \<newline>                            Memory: 0KB\<newline>                        </div>\<newline>                    </div>''\<close>
    by (simp add: displayExecutionResult_def markup_status_response_def ok_response_def js_or_def
        show_int_def show_nat.simps digit_char_def)
  moreover have \<open>escapeHtml (JStr ''<img src=x onerror=alert(1)>'') = ''&lt;img src=x onerror=alert(1)&gt;''\<close>
    by (simp add: escapeHtml_def)
  moreover have \<open>render_test markup_points_test =
    ''\<newline>                    <div class="test-result-item passed">\<newline>                        <div class="test-result-header">\<newline>                            <div class="test-result-name">t1</div>\<newline>                            <div class="test-result-status passed">\<newline>                                '' @
    [CHR 0xE2, CHR 0x9C, CHR 0x93] @
    '' Passed\<newline>                                <span class="test-result-points"><b>1</b>/10 pts</span>\<newline>                            </div>\<newline>                        </div>\<newline>                </div>''\<close>
    by (simp add: render_test_def markup_points_test_def escapeHtml_def
        show_int_def show_nat.simps digit_char_def)
  ultimately show ?thesis
    by (rule conjI [OF _ conjI])
qed

section \<open>Properties of the Studio form\<close>

subsection \<open>The index pattern\<close>

lemma show_nat_digits: "list_all is_digit (show_nat n) \<and> show_nat n \<noteq> []"
proof (induction n rule: show_nat.induct)
  case (1 n)
  have d: "is_digit (digit_char k)" if "k < 10" for k
  proof -
    from that have "k \<in> {0, 1, 2, 3, 4, 5, 6, 7, 8, 9}" by auto
    then show ?thesis
      by (auto simp: is_digit_def digit_char_def)
  qed
  show ?case
  proof (cases "n < 10")
    case True
    then show ?thesis by (subst show_nat.simps, subst show_nat.simps) (simp add: d)
  next
    case False
    with 1 show ?thesis
      by (subst show_nat.simps, subst (2) show_nat.simps) (simp add: d)
  qed
qed

lemma takeWhile_digits_bracket:
  "list_all is_digit ds \<Longrightarrow> takeWhile is_digit (ds @ CHR '']'' # rest) = ds"
  by (induction ds) (auto simp: is_digit_def)

lemma dropWhile_digits_bracket:
  "list_all is_digit ds \<Longrightarrow> dropWhile is_digit (ds @ CHR '']'' # rest) = CHR '']'' # rest"
  by (induction ds) (auto simp: is_digit_def)

lemma match_index_digits:
  "list_all is_digit ds \<Longrightarrow> ds \<noteq> [] \<Longrightarrow>
     match_index (CHR ''['' # ds @ CHR '']'' # rest) = Some (ds, rest)"
  by (simp add: match_index_def takeWhile_digits_bracket dropWhile_digits_bracket)

lemma match_index_Some:
  "match_index s = Some (ds, rest) \<Longrightarrow>
     s = CHR ''['' # ds @ CHR '']'' # rest \<and> list_all is_digit ds \<and> ds \<noteq> []"
proof (cases s)
  case Nil
  then show "match_index s = Some (ds, rest) \<Longrightarrow> ?thesis" by (simp add: match_index_def)
next
  case (Cons c t)
  assume m: "match_index s = Some (ds, rest)"
  from m Cons have c: "c = CHR ''[''" and ds: "ds = takeWhile is_digit t" "ds \<noteq> []"
    and t1: "take 1 (dropWhile is_digit t) = '']''" and rest: "rest = drop 1 (dropWhile is_digit t)"
    by (auto simp: match_index_def split: if_splits)
  from t1 rest have "dropWhile is_digit t = CHR '']'' # rest"
    by (cases "dropWhile is_digit t") auto
  then have "t = ds @ CHR '']'' # rest"
    using takeWhile_dropWhile_id [of is_digit t] ds by simp
  moreover have "list_all is_digit ds"
    using ds by (simp add: list_all_iff) (meson set_takeWhileD)
  ultimately show ?thesis using Cons c ds by simp
qed

lemma find_index_Some:
  "find_index s = Some (pre, ds, rest) \<Longrightarrow>
     s = pre @ CHR ''['' # ds @ CHR '']'' # rest \<and> list_all is_digit ds \<and> ds \<noteq> []"
proof (induction s arbitrary: pre)
  case Nil
  then show ?case by simp
next
  case (Cons c cs)
  show ?case
  proof (cases "match_index (c # cs)")
    case None
    with Cons.prems obtain pre' where "find_index cs = Some (pre', ds, rest)" "pre = c # pre'"
      by auto
    with Cons.IH show ?thesis by auto
  next
    case (Some m)
    with Cons.prems have "m = (ds, rest)" "pre = []" by (auto split: prod.splits)
    with Some match_index_Some [of "c # cs" ds rest] show ?thesis by simp
  qed
qed

lemma match_index_before_bracket:
  "(match_index (c # pre @ CHR ''['' # x) = None) =
     (\<not> (c = CHR ''['' \<and> takeWhile is_digit pre \<noteq> [] \<and> take 1 (dropWhile is_digit pre) = '']''))"
proof -
  have nd: "\<not> is_digit CHR ''[''"
    by (simp add: is_digit_def)
  have t: "takeWhile is_digit (pre @ CHR ''['' # x) = takeWhile is_digit pre"
    using nd by (rule takeWhile_tail)
  have d: "dropWhile is_digit (pre @ CHR ''['' # x) = dropWhile is_digit pre @ CHR ''['' # x"
    using nd by (rule dropWhile_append3)
  show ?thesis
    by (cases "dropWhile is_digit pre")
       (simp_all add: match_index_def t d del: dropWhile_eq_Nil_conv)
qed

lemma find_index_replace:
  "find_index s = Some (pre, ds, rest) \<Longrightarrow> list_all is_digit ds' \<Longrightarrow> ds' \<noteq> [] \<Longrightarrow>
     find_index (pre @ CHR ''['' # ds' @ CHR '']'' # rest) = Some (pre, ds', rest)"
proof (induction s arbitrary: pre)
  case Nil
  then show ?case by simp
next
  case (Cons c cs)
  show ?case
  proof (cases "match_index (c # cs)")
    case None
    with Cons.prems obtain pre' where f: "find_index cs = Some (pre', ds, rest)" and p: "pre = c # pre'"
      by auto
    from find_index_Some [OF f] have cs: "cs = pre' @ CHR ''['' # ds @ CHR '']'' # rest"
      by simp
    from None cs have "match_index (c # pre' @ CHR ''['' # ds' @ CHR '']'' # rest) = None"
      by (simp add: match_index_before_bracket)
    with Cons.IH [OF f Cons.prems(2,3)] p show ?thesis by simp
  next
    case (Some m)
    with Cons.prems have "pre = []" by (auto split: prod.splits)
    with Cons.prems(2,3) show ?thesis by (simp add: match_index_digits)
  qed
qed

lemma includes_str_single: "includes_str s [c] = (c \<in> set s)"
  by (induction s) auto

lemma input_indexed_rename:
  assumes "input_indexable inp"
  shows "input_indexed i (rename_input i inp)"
proof (cases "is_input inp \<and> name_attr inp \<noteq> None")
  case False
  then show ?thesis
    by (auto simp: input_indexed_def rename_input_def is_input_def)
next
  case True
  then obtain n where n: "name_attr inp = Some n" by auto
  with True assms obtain pre ds rest where f: "find_index n = Some (pre, ds, rest)"
    by (auto simp: input_indexable_def)
  from find_index_Some [OF f] have shape: "n = pre @ CHR ''['' # ds @ CHR '']'' # rest"
    by simp
  then have inc: "n \<noteq> []" "includes_str n ''[''" "includes_str n '']''"
    by (simp_all add: includes_str_single)
  have "find_index (pre @ CHR ''['' # show_nat i @ CHR '']'' # rest) = Some (pre, show_nat i, rest)"
    using find_index_replace [OF f] show_nat_digits [of i] by simp
  then show ?thesis
    using True n f inc
    by (simp add: input_indexed_def rename_input_def is_input_def replace_index_def name_index_def)
qed

lemma input_indexed_indexable: "input_indexed j inp \<Longrightarrow> input_indexable inp"
  by (auto simp: input_indexed_def input_indexable_def name_index_def split: option.splits if_splits)

lemma reindex_indexable:
  "list_all (\<lambda>b. list_all input_indexable (inputs b)) bs \<Longrightarrow>
     blocks_indexed i (reindex_test_cases i bs)"
  by (induction bs arbitrary: i) (auto simp: list_all_iff input_indexed_rename)

lemma blocks_indexed_indexable:
  "blocks_indexed i bs \<Longrightarrow> list_all (\<lambda>b. list_all input_indexable (inputs b)) bs"
  by (induction bs arbitrary: i) (auto simp: list_all_iff intro: input_indexed_indexable)

lemma validateField_keeps:
  "tag (snd (validateField f)) = tag f \<and> name_attr (snd (validateField f)) = name_attr f"
  by (simp add: validateField_def Let_def split_def)

lemma input_indexed_validateField: "input_indexed i (snd (validateField f)) = input_indexed i f"
  by (simp add: input_indexed_def is_input_def validateField_keeps)

lemma validate_each_indexed:
  "list_all (input_indexed i) (snd (validate_each fs v)) = list_all (input_indexed i) fs"
  by (induction fs arbitrary: v) (simp_all add: split_def Let_def input_indexed_validateField)

lemma validate_blocks_indexed:
  "blocks_indexed i (snd (validate_blocks bs v)) = blocks_indexed i bs"
  by (induction bs arbitrary: v i) (simp_all add: split_def Let_def validate_each_indexed)

lemma validateForm_test_cases:
  "test_cases (snd (validateForm st)) =
     (if tests_in_form st
      then snd (validate_blocks (test_cases st) (fst (validate_each (form_fields st) True)))
      else test_cases st)"
  by (simp add: validateForm_def Let_def split_def showValidationMessage_def)

lemma validateForm_test_cases_indexed:
  "blocks_indexed i (test_cases (snd (validateForm st))) = blocks_indexed i (test_cases st)"
  by (simp add: validateForm_test_cases validate_blocks_indexed)

lemma show_int_nat: "show_int (int n) = show_nat n"
  by (simp add: show_int_def)

lemma find_index_bracket_digits:
  "list_all is_digit ds \<Longrightarrow> ds \<noteq> [] \<Longrightarrow>
     find_index (p @ CHR ''['' # ds @ CHR '']'' # rest) \<noteq> None"
proof (induction p)
  case Nil
  then show ?case by (simp add: match_index_digits)
next
  case (Cons c p)
  then show ?case by (cases "match_index (c # p @ CHR ''['' # ds @ CHR '']'' # rest)") auto
qed

lemma createTestCaseHtml_indexable:
  "list_all input_indexable (inputs (createTestCaseHtml testId (Suc n)))"
proof -
  have "find_index (''test_cases'' @ CHR ''['' # show_nat n @ CHR '']'' # rest) \<noteq> None" for rest
    using show_nat_digits [of n] by (intro find_index_bracket_digits) simp_all
  then show ?thesis
    by (simp add: createTestCaseHtml_def Let_def text_input_def input_indexable_def show_int_nat
        del: find_index.simps)
qed

lemma addTestCase_indexed:
  assumes "test_cases_indexed st"
  shows "test_cases_indexed (addTestCase st)"
proof -
  have "list_all (\<lambda>b. list_all input_indexable (inputs b))
          (test_cases st @ [createTestCaseHtml (''test_'' @ show_nat (length (test_cases st) + 1))
             (Suc (length (test_cases st)))])"
    using assms blocks_indexed_indexable [of 0 "test_cases st"] createTestCaseHtml_indexable
    by (simp add: test_cases_indexed_def)
  then show ?thesis
    by (simp add: addTestCase_def Let_def validateForm_test_cases_indexed updateTestCaseIndexes_def
        test_cases_indexed_def reindex_indexable)
qed

lemma removeTestCase_indexed:
  assumes "test_cases_indexed st"
  shows "test_cases_indexed (removeTestCase k st)"
proof -
  have "list_all (\<lambda>b. list_all input_indexable (inputs b)) (test_cases st)"
    using assms blocks_indexed_indexable [of 0 "test_cases st"] by (simp add: test_cases_indexed_def)
  then have "list_all (\<lambda>b. list_all input_indexable (inputs b))
               (take k (test_cases st) @ drop (Suc k) (test_cases st))"
    by (auto simp: list_all_iff dest: in_set_takeD in_set_dropD)
  then show ?thesis
    using assms
    by (simp add: removeTestCase_def validateForm_test_cases_indexed updateTestCaseIndexes_def
        test_cases_indexed_def reindex_indexable studio_showNotification_def)
qed

lemma language_ops_keep_test_cases_indexed:
  "test_cases_indexed (addLanguage st) = test_cases_indexed st"
  "test_cases_indexed (removeLanguage k st) = test_cases_indexed st"
  by (simp_all add: addLanguage_def removeLanguage_def Let_def validateForm_test_cases_indexed
      updateLanguageIndexes_def studio_showNotification_def test_cases_indexed_def)

lemma studio_step_indexed:
  "test_cases_indexed st \<Longrightarrow> test_cases_indexed (studio_step op st)"
  by (cases op)
     (simp_all add: addTestCase_indexed removeTestCase_indexed language_ops_keep_test_cases_indexed)

lemma studio_run_indexed:
  "test_cases_indexed st \<Longrightarrow> test_cases_indexed (studio_run ops st)"
  unfolding studio_run_def
  by (induction ops arbitrary: st) (simp_all add: studio_step_indexed)

lemma retitle_languages_inputs:
  "map inputs (retitle_languages i bs) = map inputs bs"
  by (induction bs arbitrary: i) simp_all

subsection \<open>Re-indexing of the repeated blocks\<close>

text \<open>
  C3 (as the code has it): for every sequence of add and remove operations on the two
  groups, starting from test-case blocks whose input names are indexed by position, the
  input names of the surviving test-case blocks are indexed by position (contiguous,
  zero-based, in visual order) after every operation. For the language group
  \<open>updateLanguageIndexes\<close> renumbers the block titles only: the inputs, whose names carry
  the language key they were created with, are left as they are.
\<close>

theorem test_case_names_reindexed:
  "(test_cases_indexed st \<longrightarrow> test_cases_indexed (studio_run ops st))
   \<and> map inputs (languages (updateLanguageIndexes st)) = map inputs (languages st)"
  by (simp add: studio_run_indexed updateLanguageIndexes_def retitle_languages_inputs)

theorem test_case_names_reindexed_witness:
  "test_cases_indexed one_each_studio
   \<and> test_cases_indexed (studio_run [AddTestCase, AddLanguage, RemoveTestCase 0] one_each_studio)"
proof -
  have h: "test_cases_indexed one_each_studio"
    by code_simp
  show ?thesis
    using h test_case_names_reindexed [of one_each_studio "[AddTestCase, AddLanguage, RemoveTestCase 0]"]
    by simp
qed

text \<open>
  After a language is added and the first one removed, the surviving block stands at
  position 0 and its input names are \<open>supported_languages[language_2][...]\<close>: no index
  at all.
\<close>

theorem language_names_not_reindexed:
  "\<not> languages_indexed (studio_run [AddLanguage, RemoveLanguage 0] one_each_studio)"
  by code_simp

subsection \<open>Form-level validation\<close>

lemma validate_each_fst:
  "fst (validate_each fs v) = (v \<and> list_all (\<lambda>f. fst (validateField f)) (filter required_selected fs))"
  by (induction fs arbitrary: v) (auto simp: split_def Let_def)

lemma validate_blocks_fst:
  "fst (validate_blocks bs v) =
     (v \<and> list_all (\<lambda>f. fst (validateField f)) (filter required_selected (concat (map inputs bs))))"
  by (induction bs arbitrary: v) (auto simp: split_def Let_def validate_each_fst)

lemma validate_blocks_Nil: "(snd (validate_blocks bs v) = []) = (bs = [])"
  by (cases bs) (simp_all add: split_def Let_def)

text \<open>
  C2 (as the code has it): \<open>validateForm\<close> aggregates the results of \<open>validateField\<close> on
  the fields of the form whose \<open>data-validate\<close> attribute contains \<open>required\<close>, and the two
  structural checks (a test case is present, a language is present); the save button is
  enabled exactly when all of these pass. A field that declares only \<open>number\<close> or \<open>url\<close>
  is not among the fields consulted.
\<close>

theorem validateForm_required_fields:
  "fst (validateForm st) =
     (list_all (\<lambda>f. fst (validateField f)) (required_fields_of_form st)
      \<and> test_cases st \<noteq> [] \<and> languages st \<noteq> [])
   \<and> save_disabled (snd (validateForm st)) = (\<not> fst (validateForm st))"
  by (auto simp: validateForm_def required_fields_of_form_def Let_def split_def
      showValidationMessage_def validate_each_fst validate_blocks_fst validate_blocks_Nil)

text \<open>
  A form whose host field declares only \<open>url\<close> and holds \<open>localhost:2358\<close>: the field
  fails its rule, and the form is valid with the save button enabled.
\<close>

theorem validateForm_ignores_url_only_field:
  "api_host_field \<in> set (form_fields api_host_studio)
   \<and> \<not> fst (validateField api_host_field)
   \<and> fst (validateForm api_host_studio)
   \<and> \<not> save_disabled (snd (validateForm api_host_studio))"
  by code_simp

subsection \<open>Field validation\<close>

text \<open>
  C4 (as the code has it): when at least one declared rule fails, \<open>validateField\<close> marks
  the field with the class \<open>error\<close> and attaches exactly one message, that of the last
  failing rule in the order \<open>required\<close>, \<open>number\<close>, \<open>url\<close>; when no rule fails and the
  field declares \<open>required\<close> with a trimmed value that is not empty, it gets the class
  \<open>success\<close> and no message.
\<close>

theorem validateField_last_failing_rule:
  "(failing_rules f \<noteq> [] \<longrightarrow>
      \<not> fst (validateField f)
      \<and> ''error'' \<in> set (classes (snd (validateField f)))
      \<and> feedback (snd (validateField f)) = [rule_message (last (failing_rules f))])
   \<and> (failing_rules f = [] \<and> ''required'' \<in> set (validations f) \<and> js_trim (val f) \<noteq> [] \<longrightarrow>
      fst (validateField f)
      \<and> ''success'' \<in> set (classes (snd (validateField f)))
      \<and> feedback (snd (validateField f)) = [])"
  by (auto simp: validateField_def failing_rules_def rule_fails_def rule_message_def addClass_def
      Let_def split: if_splits)

theorem validateField_last_failing_rule_witness:
  "failing_rules number_url_field \<noteq> []
   \<and> \<not> fst (validateField number_url_field)
   \<and> feedback (snd (validateField number_url_field)) = [rule_message ''url'']
   \<and> failing_rules (text_input ''input'' ''test_cases[0][id]'' ''test_1'' (Some ''required'') []) = []
   \<and> ''success'' \<in> set (classes (snd (validateField
          (text_input ''input'' ''test_cases[0][id]'' ''test_1'' (Some ''required'') []))))"
proof -
  let ?ok = "text_input ''input'' ''test_cases[0][id]'' ''test_1'' (Some ''required'') []"
  have a: "failing_rules number_url_field = [''number'', ''url'']"
    by code_simp
  have b: "failing_rules ?ok = [] \<and> ''required'' \<in> set (validations ?ok) \<and> js_trim (val ?ok) \<noteq> []"
    by code_simp
  show ?thesis
    using validateField_last_failing_rule [of number_url_field]
      validateField_last_failing_rule [of ?ok] a b
    by simp
qed

text \<open>
  A field that declares \<open>number,url\<close> and holds \<open>abc\<close> fails both rules; the message shown
  is the one of \<open>url\<close>, not the one of \<open>number\<close>, the first failing rule.
\<close>

theorem validateField_not_first_failing_rule:
  "failing_rules number_url_field = [''number'', ''url'']
   \<and> feedback (snd (validateField number_url_field)) =
       [''Please enter a valid URL starting with http:// or https://'']
   \<and> rule_message (hd (failing_rules number_url_field)) = ''Please enter a valid number''
   \<and> feedback (snd (validateField number_url_field)) \<noteq>
       [rule_message (hd (failing_rules number_url_field))]"
  by code_simp

end
